theory Spec2Isabelle
  imports Complex_Main "HOL-Library.Word" "HOL-Library.Sublist"
begin

unbundle bit_operations_syntax

section \<open>SHA-256, the hash behind \<open>crypto.createHash('sha256')\<close>\<close>

text \<open>
  The repository hashes with Node's \<open>crypto.createHash('sha256').update(buf).digest()\<close>.
  Node's implementation is not part of the repository; the function below is SHA-256 as
  FIPS 180-4 defines it, on byte lists: padding, the message schedule, 64 rounds per
  64-byte block, and the digest as the eight state words in big-endian order.
\<close>

type_synonym byte = "8 word"
type_synonym u32 = "32 word"
type_synonym sha_state = "u32 \<times> u32 \<times> u32 \<times> u32 \<times> u32 \<times> u32 \<times> u32 \<times> u32"

definition rotr :: "nat \<Rightarrow> u32 \<Rightarrow> u32" where
  "rotr n x = drop_bit n x OR push_bit (32 - n) x"

definition Ch :: "u32 \<Rightarrow> u32 \<Rightarrow> u32 \<Rightarrow> u32" where
  "Ch x y z = (x AND y) XOR (NOT x AND z)"

definition Maj :: "u32 \<Rightarrow> u32 \<Rightarrow> u32 \<Rightarrow> u32" where
  "Maj x y z = (x AND y) XOR (x AND z) XOR (y AND z)"

definition bsig0 :: "u32 \<Rightarrow> u32" where
  "bsig0 x = rotr 2 x XOR rotr 13 x XOR rotr 22 x"

definition bsig1 :: "u32 \<Rightarrow> u32" where
  "bsig1 x = rotr 6 x XOR rotr 11 x XOR rotr 25 x"

definition ssig0 :: "u32 \<Rightarrow> u32" where
  "ssig0 x = rotr 7 x XOR rotr 18 x XOR drop_bit 3 x"

definition ssig1 :: "u32 \<Rightarrow> u32" where
  "ssig1 x = rotr 17 x XOR rotr 19 x XOR drop_bit 10 x"

text \<open>
  The round constants: the first 32 bits of the fractional parts of the cube roots of the
  first 64 primes; and the initial state: those of the square roots of the first 8 primes.
\<close>

definition K256 :: "u32 list" where
  "K256 =
    [1116352408, 1899447441, 3049323471, 3921009573, 961987163, 1508970993,
     2453635748, 2870763221, 3624381080, 310598401, 607225278, 1426881987,
     1925078388, 2162078206, 2614888103, 3248222580, 3835390401, 4022224774,
     264347078, 604807628, 770255983, 1249150122, 1555081692, 1996064986,
     2554220882, 2821834349, 2952996808, 3210313671, 3336571891, 3584528711,
     113926993, 338241895, 666307205, 773529912, 1294757372, 1396182291,
     1695183700, 1986661051, 2177026350, 2456956037, 2730485921, 2820302411,
     3259730800, 3345764771, 3516065817, 3600352804, 4094571909, 275423344,
     430227734, 506948616, 659060556, 883997877, 958139571, 1322822218,
     1537002063, 1747873779, 1955562222, 2024104815, 2227730452, 2361852424,
     2428436474, 2756734187, 3204031479, 3329325298]"

definition H256 :: sha_state where
  "H256 = (1779033703, 3144134277, 1013904242, 2773480762,
           1359893119, 2600822924, 528734635, 1541459225)"

definition be32 :: "byte \<Rightarrow> byte \<Rightarrow> byte \<Rightarrow> byte \<Rightarrow> u32" where
  "be32 a b c d = push_bit 24 (ucast a) OR push_bit 16 (ucast b) OR push_bit 8 (ucast c) OR ucast d"

fun words_of :: "byte list \<Rightarrow> u32 list" where
  "words_of (a # b # c # d # r) = be32 a b c d # words_of r"
| "words_of _ = []"

definition bytes_of_word :: "u32 \<Rightarrow> byte list" where
  "bytes_of_word w = [ucast (drop_bit 24 w), ucast (drop_bit 16 w), ucast (drop_bit 8 w), ucast w]"

definition len_bytes :: "nat \<Rightarrow> byte list" where
  "len_bytes n = map (\<lambda>i. ucast (drop_bit (8 * i) (of_nat (8 * n) :: 64 word)))
                     [7, 6, 5, 4, 3, 2, 1, 0]"

definition pad :: "byte list \<Rightarrow> byte list" where
  "pad m = m @ [0x80] @ replicate ((119 - length m mod 64) mod 64) 0 @ len_bytes (length m)"

fun chunks16 :: "u32 list \<Rightarrow> u32 list list" where
  "chunks16 ws = (if length ws < 16 then [] else take 16 ws # chunks16 (drop 16 ws))"

text \<open>
  The message schedule \<open>W\<^sub>t = \<sigma>\<^sub>1(W\<^sub>t\<^sub>-\<^sub>2) + W\<^sub>t\<^sub>-\<^sub>7 + \<sigma>\<^sub>0(W\<^sub>t\<^sub>-\<^sub>1\<^sub>5) + W\<^sub>t\<^sub>-\<^sub>1\<^sub>6\<close> for
  \<open>16 \<le> t < 64\<close>, built on the list of the words so far, newest first.
\<close>

definition ext :: "u32 list \<Rightarrow> u32 list" where
  "ext w = (ssig1 (w ! 1) + w ! 6 + ssig0 (w ! 14) + w ! 15) # w"

definition schedule :: "u32 list \<Rightarrow> u32 list" where
  "schedule blk = rev ((ext ^^ 48) (rev blk))"

fun round :: "sha_state \<Rightarrow> u32 \<times> u32 \<Rightarrow> sha_state" where
  "round (a, b, c, d, e, f, g, h) (k, w) =
     (let t1 = h + bsig1 e + Ch e f g + k + w;
          t2 = bsig0 a + Maj a b c
      in (t1 + t2, a, b, c, d + t1, e, f, g))"

fun add_state :: "sha_state \<Rightarrow> sha_state \<Rightarrow> sha_state" where
  "add_state (a, b, c, d, e, f, g, h) (a', b', c', d', e', f', g', h') =
     (a + a', b + b', c + c', d + d', e + e', f + f', g + g', h + h')"

definition compress :: "sha_state \<Rightarrow> u32 list \<Rightarrow> sha_state" where
  "compress st blk = add_state st (foldl round st (zip K256 (schedule blk)))"

fun digest_bytes :: "sha_state \<Rightarrow> byte list" where
  "digest_bytes (a, b, c, d, e, f, g, h) =
     bytes_of_word a @ bytes_of_word b @ bytes_of_word c @ bytes_of_word d @
     bytes_of_word e @ bytes_of_word f @ bytes_of_word g @ bytes_of_word h"

definition sha256 :: "byte list \<Rightarrow> byte list" where
  "sha256 m = digest_bytes (foldl compress H256 (chunks16 (words_of (pad m))))"

section \<open>Strings, hexadecimal text and JSON\<close>

text \<open>
  A JavaScript string is modelled as the list of the bytes of its UTF-8 encoding; all the
  text the escrow handles (hexadecimal digits, Stellar addresses, memo prefixes) is ASCII.
\<close>

definition hexdigit :: "nat \<Rightarrow> char" where
  "hexdigit n = ''0123456789abcdef'' ! n"

text \<open>\<open>buf.toString('hex')\<close> and \<open>digest('hex')\<close>: two lower-case digits per byte.\<close>

definition toHex :: "byte list \<Rightarrow> string" where
  "toHex bs = concat (map (\<lambda>b. [hexdigit (unat b div 16), hexdigit (unat b mod 16)]) bs)"

definition hexval :: "char \<Rightarrow> nat option" where
  "hexval c =
     (let n = (of_char c :: nat)
      in if 48 \<le> n \<and> n \<le> 57 then Some (n - 48)
         else if 97 \<le> n \<and> n \<le> 102 then Some (n - 87)
         else if 65 \<le> n \<and> n \<le> 70 then Some (n - 55)
         else None)"

text \<open>The character class \<open>[a-fA-F0-9]\<close>.\<close>

definition isHexChar :: "char \<Rightarrow> bool" where
  "isHexChar c = (hexval c \<noteq> None)"

text \<open>
  \<open>Buffer.from(s, 'hex')\<close>: Node decodes pairs of hexadecimal digits and stops at the
  first pair that is not one; a trailing single character is dropped.
\<close>

fun fromHex :: "string \<Rightarrow> byte list" where
  "fromHex (a # b # r) =
     (case (hexval a, hexval b) of
        (Some x, Some y) \<Rightarrow> of_nat (16 * x + y) # fromHex r
      | _ \<Rightarrow> [])"
| "fromHex _ = []"

text \<open>\<open>s.replace('0x', '')\<close>: the first occurrence of \<open>0x\<close>, wherever it is, is removed.\<close>

fun replace_0x :: "string \<Rightarrow> string" where
  "replace_0x (c # d # r) =
     (if c = CHR ''0'' \<and> d = CHR ''x'' then r else c # replace_0x (d # r))"
| "replace_0x s = s"

text \<open>\<open>'0x' + buf.toString('hex')\<close>, the spelling of secrets and hashlocks.\<close>

definition hex0x :: "byte list \<Rightarrow> string" where
  "hex0x bs = ''0x'' @ toHex bs"


text \<open>
  Decimal text of an integer, as template strings and \<open>JSON.stringify\<close> give it for
  every integer below \<open>10\<^sup>2\<^sup>1\<close> in magnitude. From \<open>10\<^sup>2\<^sup>1\<close> on JavaScript writes
  the exponent form (\<open>1e+21\<close>) where this definition goes on writing digits, so for a
  deadline that large the contract id below is not the one the code computes; what is
  proved of the contract id is its length and that it consists of hexadecimal digits,
  which hold for either text.
\<close>

fun dec_nat :: "nat \<Rightarrow> string" where
  "dec_nat n = (if n < 10 then [char_of (48 + n)]
                else dec_nat (n div 10) @ [char_of (48 + n mod 10)])"

declare dec_nat.simps [simp del]

definition dec_int :: "int \<Rightarrow> string" where
  "dec_int i = (if i < 0 then CHR ''-'' # dec_nat (nat (- i)) else dec_nat (nat i))"

text \<open>
  \<open>JSON.stringify\<close> of a string: quotes around it, the quote and the backslash escaped,
  control characters written as their short escape or as \<open>\u00XX\<close>.
\<close>

definition json_escape :: "char \<Rightarrow> string" where
  "json_escape c =
     (let n = (of_char c :: nat)
      in if n = 34 then [CHR 0x5C, CHR 0x22]
         else if n = 92 then [CHR 0x5C, CHR 0x5C]
         else if n = 8 then [CHR 0x5C, CHR ''b'']
         else if n = 9 then [CHR 0x5C, CHR ''t'']
         else if n = 10 then [CHR 0x5C, CHR ''n'']
         else if n = 12 then [CHR 0x5C, CHR ''f'']
         else if n = 13 then [CHR 0x5C, CHR ''r'']
         else if n < 32 then [CHR 0x5C, CHR ''u'', CHR ''0'', CHR ''0'',
                              hexdigit (n div 16), hexdigit (n mod 16)]
         else [c])"

definition json_string :: "string \<Rightarrow> string" where
  "json_string s = [CHR 0x22] @ concat (map json_escape s) @ [CHR 0x22]"

text \<open>A string handed to \<open>hash.update\<close> is hashed as its bytes.\<close>

definition bytes_of_string :: "string \<Rightarrow> byte list" where
  "bytes_of_string s = map (\<lambda>c. of_nat (of_char c)) s"

section \<open>The single-stage escrow: class \<open>StellarHTLC\<close>\<close>

text \<open>
  The configuration of an escrow. \<open>timelock\<close> is a Unix time in seconds; every caller
  sets it to a whole number.
\<close>

datatype network = Testnet | Mainnet

record StellarHTLCConfig =
  secret :: string
  hashlock :: string
  amount :: string
  makerAddress :: string
  takerAddress :: string
  timelock :: int
  network :: network

datatype tx_type = Fund | Claim | Refund

record StellarHTLCTransaction =
  tx_id :: string
  tx_type :: tx_type
  tx_from :: string
  tx_to :: string
  tx_amount :: string
  tx_memo :: string
  tx_xdr :: string
  tx_hash :: string

text \<open>
  What the class takes from outside itself. \<open>date_now\<close> is the reading of \<open>Date.now()\<close>,
  in milliseconds. \<open>backend\<close> stands for the code that turns a memo into a transaction
  envelope: given the signing account, the kind of transaction and the memo it returns the
  transaction's id, XDR and hash, or nothing when that code throws. In the mock variant of
  the class the envelope is built locally from random bytes and never fails; in the variant
  on the Stellar SDK it loads the account from Horizon, builds and signs, and any exception
  there is rethrown as \<open>Failed to create ... transaction\<close>. \<open>fetch_tx\<close> is the Horizon
  lookup of a transaction by hash.
\<close>

record horizon_op =
  op_type :: string
  op_name :: "string option"
  op_value :: string

record horizon_tx =
  memo :: "string option"
  memo_type :: string
  operations :: "horizon_op list"

record world =
  date_now :: int
  backend :: "string \<Rightarrow> tx_type \<Rightarrow> string \<Rightarrow> (string \<times> string \<times> string) option"
  fetch_tx :: "string \<Rightarrow> horizon_tx option"

text \<open>
  The envelope builder of the class on the Stellar SDK. \<open>StellarSdk.Memo.text\<close> takes at
  most 28 bytes (the scripts say so where they cut their own memos: \<open>max 28 bytes for
  Stellar\<close>) and throws on a longer memo; \<open>sign\<close> is the rest, loading the account,
  building and signing, which gives the XDR and the hash, or nothing when it throws. The
  id of the transaction is its hash.
\<close>

definition sdk_backend ::
  "(string \<Rightarrow> tx_type \<Rightarrow> string \<Rightarrow> (string \<times> string) option) \<Rightarrow>
   string \<Rightarrow> tx_type \<Rightarrow> string \<Rightarrow> (string \<times> string \<times> string) option" where
  "sdk_backend sign keypair ty m =
     (if 28 < length m then None
      else case sign keypair ty m of
             None \<Rightarrow> None
           | Some (x, h) \<Rightarrow> Some (h, x, h))"

datatype htlc_error =
  Invalid_secret_provided
  | Timelock_has_expired
  | Timelock_has_not_expired_yet
  | Failed_to_create tx_type
  | Failed_to_extract

definition config_json :: "StellarHTLCConfig \<Rightarrow> string" where
  "config_json cfg =
     ''{'' @ json_string ''hashlock'' @ '':'' @ json_string (hashlock cfg) @ '','' @
     json_string ''maker'' @ '':'' @ json_string (makerAddress cfg) @ '','' @
     json_string ''taker'' @ '':'' @ json_string (takerAddress cfg) @ '','' @
     json_string ''amount'' @ '':'' @ json_string (amount cfg) @ '','' @
     json_string ''timelock'' @ '':'' @ dec_int (timelock cfg) @ ''}''"

definition generateContractId :: "StellarHTLCConfig \<Rightarrow> string" where
  "generateContractId cfg = take 16 (toHex (sha256 (bytes_of_string (config_json cfg))))"

definition validateSecret :: "StellarHTLCConfig \<Rightarrow> string \<Rightarrow> bool" where
  "validateSecret cfg s =
     (let secretBuffer = fromHex (replace_0x s);
          calculatedHash = toHex (sha256 secretBuffer);
          expectedHash = replace_0x (hashlock cfg)
      in calculatedHash = expectedHash)"

text \<open>
  \<open>Date.now() / 1000 > this.config.timelock\<close>. The division is the exact quotient;
  a double carries it exactly for every clock reading below \<open>2\<^sup>5\<^sup>3\<close>.
\<close>

definition isTimelockExpired :: "world \<Rightarrow> StellarHTLCConfig \<Rightarrow> bool" where
  "isTimelockExpired w cfg = (real_of_int (date_now w) / 1000 > real_of_int (timelock cfg))"

definition createFundingTransaction ::
  "world \<Rightarrow> StellarHTLCConfig \<Rightarrow> string \<Rightarrow> htlc_error + StellarHTLCTransaction" where
  "createFundingTransaction w cfg takerKeypair =
     (let m = ''HTLC_FUND_'' @ generateContractId cfg
      in case backend w takerKeypair Fund m of
           None \<Rightarrow> Inl (Failed_to_create Fund)
         | Some (i, x, h) \<Rightarrow>
             Inr \<lparr>tx_id = i, tx_type = Fund, tx_from = takerAddress cfg,
                  tx_to = makerAddress cfg, tx_amount = amount cfg, tx_memo = m,
                  tx_xdr = x, tx_hash = h\<rparr>)"

definition createClaimingTransaction ::
  "world \<Rightarrow> StellarHTLCConfig \<Rightarrow> string \<Rightarrow> string \<Rightarrow> htlc_error + StellarHTLCTransaction" where
  "createClaimingTransaction w cfg s makerKeypair =
     (if \<not> validateSecret cfg s then Inl Invalid_secret_provided
      else if isTimelockExpired w cfg then Inl Timelock_has_expired
      else
        let m = ''HTLC_CLAIM_'' @ generateContractId cfg @ ''_'' @ replace_0x s
        in case backend w makerKeypair Claim m of
             None \<Rightarrow> Inl (Failed_to_create Claim)
           | Some (i, x, h) \<Rightarrow>
               Inr \<lparr>tx_id = i, tx_type = Claim, tx_from = makerAddress cfg,
                    tx_to = makerAddress cfg, tx_amount = amount cfg, tx_memo = m,
                    tx_xdr = x, tx_hash = h\<rparr>)"

definition createRefundTransaction ::
  "world \<Rightarrow> StellarHTLCConfig \<Rightarrow> string \<Rightarrow> htlc_error + StellarHTLCTransaction" where
  "createRefundTransaction w cfg makerKeypair =
     (if \<not> isTimelockExpired w cfg then Inl Timelock_has_not_expired_yet
      else
        let m = ''HTLC_REFUND_'' @ generateContractId cfg
        in case backend w makerKeypair Refund m of
             None \<Rightarrow> Inl (Failed_to_create Refund)
           | Some (i, x, h) \<Rightarrow>
               Inr \<lparr>tx_id = i, tx_type = Refund, tx_from = makerAddress cfg,
                    tx_to = takerAddress cfg, tx_amount = amount cfg, tx_memo = m,
                    tx_xdr = x, tx_hash = h\<rparr>)"

subsection \<open>The memo pattern \<open>/HTLC_CLAIM_[^_]+_([a-fA-F0-9]+)/\<close>\<close>

text \<open>
  \<open>match_at\<close> is an attempt of the pattern at the start of the text. After the literal
  prefix, \<open>[^_]+\<close> can only stop where the next character is an underscore, so it takes
  the whole run of characters other than underscores, which must not be empty; then the
  underscore; then the group, greedy, takes the whole run of hexadecimal digits, which
  must not be empty. \<open>memoMatch\<close> is \<open>memo.match(...)\<close>: the attempt at the leftmost
  position that succeeds, and its group.
\<close>

fun strip_prefix :: "string \<Rightarrow> string \<Rightarrow> string option" where
  "strip_prefix [] s = Some s"
| "strip_prefix (p # ps) [] = None"
| "strip_prefix (p # ps) (c # cs) = (if p = c then strip_prefix ps cs else None)"

definition match_at :: "string \<Rightarrow> string option" where
  "match_at s =
     (case strip_prefix ''HTLC_CLAIM_'' s of
        None \<Rightarrow> None
      | Some r \<Rightarrow>
          (if takeWhile (\<lambda>c. c \<noteq> CHR ''_'') r = [] then None
           else case dropWhile (\<lambda>c. c \<noteq> CHR ''_'') r of
                  [] \<Rightarrow> None
                | u # r' \<Rightarrow>
                    (if takeWhile isHexChar r' = [] then None
                     else Some (takeWhile isHexChar r'))))"

fun memoMatch :: "string \<Rightarrow> string option" where
  "memoMatch [] = match_at []"
| "memoMatch (c # cs) =
     (case match_at (c # cs) of Some g \<Rightarrow> Some g | None \<Rightarrow> memoMatch cs)"

definition extractSecretFromTransaction ::
  "StellarHTLCConfig \<Rightarrow> StellarHTLCTransaction \<Rightarrow> string option" where
  "extractSecretFromTransaction cfg tx =
     (if tx_type tx \<noteq> Claim then None
      else case memoMatch (tx_memo tx) of
             None \<Rightarrow> None
           | Some g \<Rightarrow> (if validateSecret cfg (''0x'' @ g) then Some (''0x'' @ g) else None))"





subsection \<open>Sequences of operations on one escrow\<close>

text \<open>
  The object holds its configuration and the contract id computed from it, and none of its
  methods assigns to either. A sequence of calls on one object is therefore the list of the
  calls, each with the world it runs in, against the same configuration.
\<close>

datatype operation = DoFund | DoClaim string | DoRefund

definition apply_operation ::
  "StellarHTLCConfig \<Rightarrow> string \<Rightarrow> world \<Rightarrow> operation \<Rightarrow> htlc_error + StellarHTLCTransaction" where
  "apply_operation cfg keypair w operation =
     (case operation of
        DoFund \<Rightarrow> createFundingTransaction w cfg keypair
      | DoClaim s \<Rightarrow> createClaimingTransaction w cfg s keypair
      | DoRefund \<Rightarrow> createRefundTransaction w cfg keypair)"

fun run_operations ::
  "StellarHTLCConfig \<Rightarrow> string \<Rightarrow> (world \<times> operation) list \<Rightarrow>
   (htlc_error + StellarHTLCTransaction) list" where
  "run_operations cfg keypair [] = []"
| "run_operations cfg keypair ((w, operation) # rest) =
     apply_operation cfg keypair w operation # run_operations cfg keypair rest"

section \<open>The swap scripts\<close>

subsection \<open>Packing the timelocks of the Base escrow\<close>

record timelocks =
  withdrawal :: int
  publicWithdrawal :: int
  cancellation :: int

text \<open>
  The expression both scripts build \<open>packedTimelocks\<close> with, on \<open>BigInt\<close>s: unbounded
  integers, \<open><<\<close> and \<open>|\<close> as on two's complement of unbounded width.
\<close>

definition packTimelocks :: "int \<Rightarrow> timelocks \<Rightarrow> int" where
  "packTimelocks now tls =
     push_bit 224 now OR
     push_bit 0 (withdrawal tls - now) OR
     push_bit 32 (publicWithdrawal tls - now) OR
     push_bit 64 (cancellation tls - now)"

text \<open>
  The reading of the packed word the scripts' comments give: a 32-bit field at bit 0, at
  bit 32 and at bit 64 for the three periods, and the deployment timestamp from bit 224.
\<close>

definition field32 :: "nat \<Rightarrow> int \<Rightarrow> int" where
  "field32 k word = take_bit 32 (drop_bit k word)"

definition deployedAt :: "int \<Rightarrow> int" where
  "deployedAt word = drop_bit 224 word"

subsection \<open>State and steps of \<open>real-test-stellar-to-base.js\<close>\<close>

record immutables =
  orderHash :: string
  im_hashlock :: "string option"
  maker :: int
  taker :: int
  token :: int
  im_amount :: int
  safetyDeposit :: int
  im_timelocks :: int

record escrow_receipt =
  rc_hash :: string
  rc_address :: string
  rc_blockNumber :: int
  rc_gasUsed :: string

record baseEscrow =
  be_hash :: string
  be_address :: string
  be_amount :: string
  be_immutables :: immutables
  be_blockNumber :: int
  be_gasUsed :: string

record withdrawalRecord =
  wd_hash :: string
  wd_amount :: string
  wd_gasUsed :: string

record secretReveal =
  sr_hash :: string
  sr_contractId :: string
  sr_secret :: "string option"
  sr_xdr :: string
  sr_simulated :: bool

text \<open>
  \<open>swapState\<close>, without its handles to providers, signers and contracts; the keys and the
  signer's address stand for them. A field that is \<open>null\<close> or not yet set is \<open>None\<close>.
\<close>

record swapState =
  st_secret :: "string option"
  st_hashlock :: "string option"
  st_orderId :: "string option"
  st_baseSigner :: int
  st_stellarMaker :: string
  st_stellarTaker :: string
  st_stellarHTLC :: "StellarHTLCConfig option"
  st_baseEscrow :: "baseEscrow option"
  st_secretReveal :: "secretReveal option"
  st_withdrawal :: "withdrawalRecord option"

text \<open>What a step sends to a ledger: the calls of the factory and of the escrow.\<close>

datatype ledger_call =
  CreateDstEscrow immutables int
  | EscrowWithdraw string immutables
  | EscrowCancel immutables

datatype swap_error =
  Invalid_secret_extracted
  | TypeError
  | Escrow_creation_failed

text \<open>
  \<open>generateHashlock\<close>: \<open>secretBytes\<close> is what \<open>crypto.randomBytes(32)\<close> returned. The
  step reads the clock for the order id and again for the deadline,
  \<open>Math.floor(Date.now() / 1000) + 86400\<close>; both readings are \<open>date_now\<close> here.
\<close>

definition generateHashlock :: "world \<Rightarrow> byte list \<Rightarrow> swapState \<Rightarrow> swapState" where
  "generateHashlock w secretBytes st =
     (let s = hex0x secretBytes;
          h = hex0x (sha256 secretBytes);
          htlcConfig = \<lparr>secret = s, hashlock = h, amount = ''10'',
                        makerAddress = st_stellarMaker st, takerAddress = st_stellarTaker st,
                        timelock = date_now w div 1000 + 86400, network = Testnet\<rparr>
      in st\<lparr>st_secret := Some s, st_hashlock := Some h,
              st_orderId := Some (''atomic_swap_'' @ dec_int (date_now w)),
              st_stellarHTLC := Some htlcConfig\<rparr>)"

text \<open>
  \<open>lockETHIntoHTLC\<close>: \<open>randomOrderHash\<close> and \<open>randomTaker\<close> are the random order hash
  and taker address; \<open>createDstEscrow\<close> is the factory call with the confirmation of its
  transaction, \<open>None\<close> when either throws.
\<close>

definition lockETHIntoHTLC ::
  "world \<Rightarrow> (immutables \<Rightarrow> int \<Rightarrow> escrow_receipt option) \<Rightarrow> string \<Rightarrow> int \<Rightarrow> swapState \<Rightarrow>
   (swap_error + swapState) \<times> ledger_call list" where
  "lockETHIntoHTLC w createDstEscrow randomOrderHash randomTaker st =
     (let now = date_now w div 1000;
          tls = \<lparr>withdrawal = now + 3600, publicWithdrawal = now + 21600,
                cancellation = now + 86400\<rparr>;
          packedTimelocks = packTimelocks now tls;
          imm = \<lparr>orderHash = randomOrderHash, im_hashlock = st_hashlock st,
                 maker = st_baseSigner st, taker = randomTaker, token = 0,
                 im_amount = 10 ^ 15, safetyDeposit = 10 ^ 14,
                 im_timelocks = packedTimelocks\<rparr>;
          totalValue = im_amount imm + safetyDeposit imm
      in case createDstEscrow imm totalValue of
           None \<Rightarrow> (Inl Escrow_creation_failed, [CreateDstEscrow imm totalValue])
         | Some r \<Rightarrow>
             (Inr (st\<lparr>st_baseEscrow :=
                       Some \<lparr>be_hash = rc_hash r, be_address = rc_address r,
                             be_amount = ''0.001'',
                             be_immutables = imm, be_blockNumber = rc_blockNumber r,
                             be_gasUsed = rc_gasUsed r\<rparr>\<rparr>),
              [CreateDstEscrow imm totalValue]))"








subsection \<open>The same step of \<open>real-test-base-to-stellar.js\<close>\<close>




subsection \<open>Sample inputs\<close>

text \<open>A world whose envelope builder always succeeds, and an escrow with deadline 100.\<close>

definition mock_world :: "int \<Rightarrow> world" where
  "mock_world t = \<lparr>date_now = t, backend = (\<lambda>k ty m. Some (''id'', ''xdr'', ''hash'')),
                    fetch_tx = (\<lambda>h. None)\<rparr>"

definition sample_config :: StellarHTLCConfig where
  "sample_config =
     \<lparr>secret = hex0x (replicate 32 7), hashlock = hex0x (sha256 (replicate 32 7)),
      amount = ''10'', makerAddress = ''GMAKER'', takerAddress = ''GTAKER'',
      timelock = 100, network = Testnet\<rparr>"

definition sample_state :: swapState where
  "sample_state =
     \<lparr>st_secret = None, st_hashlock = None, st_orderId = None, st_baseSigner = 1,
      st_stellarMaker = ''GMAKER'', st_stellarTaker = ''GTAKER'', st_stellarHTLC = None,
      st_baseEscrow = None, st_secretReveal = None, st_withdrawal = None\<rparr>"

text \<open>
  The state after \<open>generateHashlock\<close> on the sample secret and \<open>lockETHIntoHTLC\<close> at
  clock 5000 with \<open>sample_factory\<close>, written out; and the same state with another
  hashlock, the digest of the three bytes \<open>abc\<close>.
\<close>

definition sample_immutables :: immutables where
  "sample_immutables =
     \<lparr>orderHash = hex0x (replicate 32 1), im_hashlock = Some (hex0x (sha256 (replicate 32 7))),
      maker = 1, taker = 2, token = 0, im_amount = 10 ^ 15, safetyDeposit = 10 ^ 14,
      im_timelocks = packTimelocks 5
        \<lparr>withdrawal = 3605, publicWithdrawal = 21605, cancellation = 86405\<rparr>\<rparr>"

definition locked_state :: swapState where
  "locked_state =
     \<lparr>st_secret = Some (hex0x (replicate 32 7)),
      st_hashlock = Some (hex0x (sha256 (replicate 32 7))),
      st_orderId = Some (''atomic_swap_'' @ dec_int 5000), st_baseSigner = 1,
      st_stellarMaker = ''GMAKER'', st_stellarTaker = ''GTAKER'',
      st_stellarHTLC = Some (sample_config\<lparr>timelock := 86405\<rparr>),
      st_baseEscrow =
        Some \<lparr>be_hash = ''0xtx'', be_address = ''0xescrow'', be_amount = ''0.001'',
              be_immutables = sample_immutables, be_blockNumber = 1,
              be_gasUsed = ''100000''\<rparr>,
      st_secretReveal = None, st_withdrawal = None\<rparr>"




text \<open>
  A world on the SDK in which the account loads and the signing succeeds.
\<close>

definition sdk_world :: "int \<Rightarrow> world" where
  "sdk_world t = \<lparr>date_now = t, backend = sdk_backend (\<lambda>k ty m. Some (''xdr'', ''hash'')),
                   fetch_tx = (\<lambda>h. None)\<rparr>"

definition sample_factory :: "immutables \<Rightarrow> int \<Rightarrow> escrow_receipt option" where
  "sample_factory imm v =
     Some \<lparr>rc_hash = ''0xtx'', rc_address = ''0xescrow'', rc_blockNumber = 1,
           rc_gasUsed = ''100000''\<rparr>"

section \<open>Facts about the hash and about hexadecimal text\<close>

declare chunks16.simps [simp del]

lemma length_digest_bytes: "length (digest_bytes st) = 32"
proof -
  obtain a b c d e f g h where "st = (a, b, c, d, e, f, g, h)"
    by (metis surj_pair)
  then show ?thesis by (simp add: bytes_of_word_def)
qed

lemma length_sha256: "length (sha256 m) = 32"
  by (simp add: sha256_def length_digest_bytes)

text \<open>
  Two digests computed from the definitions: that of the three bytes \<open>abc\<close>, the example
  of the standard, and that of the sample secret, 32 bytes of value 7. The message
  schedule is unrolled, and the 64 rounds are taken four at a time.
\<close>

lemma replicate_numeral: "replicate (numeral k) x = x # replicate (pred_numeral k) x"
  by (simp add: numeral_eq_Suc)

lemma funpow_numeral_unfold: "(f ^^ numeral k) x = f ((f ^^ pred_numeral k) x)"
  by (simp add: numeral_eq_Suc)

lemma sha256_abc:
  "sha256 [97, 98, 99] =
     [186, 120, 22, 191, 143, 1, 207, 234, 65, 65, 64, 222, 93, 174, 34, 35, 176, 3, 97, 163, 150, 23, 122, 156, 180, 16, 255, 97, 242, 0, 21, 173]"
proof -
  have p: "chunks16 (words_of (pad [97, 98, 99])) =
      [[1633837952, 0, 0, 0, 0, 0, 0, 0, 0, 0, 0, 0, 0, 0, 0, 24]]"
    by (simp add: pad_def len_bytes_def be32_def replicate_numeral chunks16.simps)
  have s: "schedule [1633837952, 0, 0, 0, 0, 0, 0, 0, 0, 0, 0, 0, 0, 0, 0, 24] =
      [1633837952, 0, 0, 0, 0, 0, 0, 0, 0, 0, 0, 0, 0, 0, 0, 24, 1633837952, 983040, 2108187653, 1610613702, 1050508152, 25426944, 316456923, 3806512014, 3357629466, 3073800610, 3854317833, 845560923, 2636160359, 3968280267, 1881225380, 3552024379, 2482346367, 996719219, 2952069057, 4043988066, 176896406, 1924104970, 2483675966, 610538786, 2672279444, 4037431130, 1042573945, 657669027, 206005234, 2215296807, 2049510749, 106709978, 4215179723, 3430291419, 3118885940, 2845390439, 2226839261, 3256115900, 344409900, 2987358873, 4015503821, 3957764664, 2682456414, 2025622859, 2755645205, 1720397816, 4004225740, 313650667]"
    by (simp add: schedule_def ext_def ssig0_def ssig1_def rotr_def funpow_numeral_unfold)
  have z: "zip K256 [1633837952, 0, 0, 0, 0, 0, 0, 0, 0, 0, 0, 0, 0, 0, 0, 24, 1633837952, 983040, 2108187653, 1610613702, 1050508152, 25426944, 316456923, 3806512014, 3357629466, 3073800610, 3854317833, 845560923, 2636160359, 3968280267, 1881225380, 3552024379, 2482346367, 996719219, 2952069057, 4043988066, 176896406, 1924104970, 2483675966, 610538786, 2672279444, 4037431130, 1042573945, 657669027, 206005234, 2215296807, 2049510749, 106709978, 4215179723, 3430291419, 3118885940, 2845390439, 2226839261, 3256115900, 344409900, 2987358873, 4015503821, 3957764664, 2682456414, 2025622859, 2755645205, 1720397816, 4004225740, 313650667] =
      [(1116352408, 1633837952), (1899447441, 0), (3049323471, 0), (3921009573, 0)] @
      [(961987163, 0), (1508970993, 0), (2453635748, 0), (2870763221, 0)] @
      [(3624381080, 0), (310598401, 0), (607225278, 0), (1426881987, 0)] @
      [(1925078388, 0), (2162078206, 0), (2614888103, 0), (3248222580, 24)] @
      [(3835390401, 1633837952), (4022224774, 983040), (264347078, 2108187653), (604807628, 1610613702)] @
      [(770255983, 1050508152), (1249150122, 25426944), (1555081692, 316456923), (1996064986, 3806512014)] @
      [(2554220882, 3357629466), (2821834349, 3073800610), (2952996808, 3854317833), (3210313671, 845560923)] @
      [(3336571891, 2636160359), (3584528711, 3968280267), (113926993, 1881225380), (338241895, 3552024379)] @
      [(666307205, 2482346367), (773529912, 996719219), (1294757372, 2952069057), (1396182291, 4043988066)] @
      [(1695183700, 176896406), (1986661051, 1924104970), (2177026350, 2483675966), (2456956037, 610538786)] @
      [(2730485921, 2672279444), (2820302411, 4037431130), (3259730800, 1042573945), (3345764771, 657669027)] @
      [(3516065817, 206005234), (3600352804, 2215296807), (4094571909, 2049510749), (275423344, 106709978)] @
      [(430227734, 4215179723), (506948616, 3430291419), (659060556, 3118885940), (883997877, 2845390439)] @
      [(958139571, 2226839261), (1322822218, 3256115900), (1537002063, 344409900), (1747873779, 2987358873)] @
      [(1955562222, 4015503821), (2024104815, 3957764664), (2227730452, 2682456414), (2361852424, 2025622859)] @
      [(2428436474, 2755645205), (2756734187, 1720397816), (3204031479, 4004225740), (3329325298, 313650667)]"
    by (simp add: K256_def)
  have r0: "foldl round H256 [(1116352408, 1633837952), (1899447441, 0), (3049323471, 0), (3921009573, 0)] =
      (3578852966, 3368241063, 1516951981, 1567288269, 618661968, 4180228587, 2026797449, 4197074466)"
    by (simp add: H256_def Let_def Ch_def Maj_def bsig0_def bsig1_def rotr_def)
  have r1: "foldl round (3578852966, 3368241063, 1516951981, 1567288269, 618661968, 4180228587, 2026797449, 4197074466) [(961987163, 0), (1508970993, 0), (2453635748, 0), (2870763221, 0)] =
      (2241887071, 3842179968, 725748213, 71342698, 207977081, 2603066369, 1900175533, 1135452741)"
    by (simp add: Let_def Ch_def Maj_def bsig0_def bsig1_def rotr_def)
  have r2: "foldl round (2241887071, 3842179968, 725748213, 71342698, 207977081, 2603066369, 1900175533, 1135452741) [(3624381080, 0), (310598401, 0), (607225278, 0), (1426881987, 0)] =
      (4146054569, 1201185780, 2357671019, 2382687417, 2171590377, 1131095016, 482944406, 852110732)"
    by (simp add: Let_def Ch_def Maj_def bsig0_def bsig1_def rotr_def)
  have r3: "foldl round (4146054569, 1201185780, 2357671019, 2382687417, 2171590377, 1131095016, 482944406, 852110732) [(1925078388, 0), (2162078206, 0), (2614888103, 0), (3248222580, 24)] =
      (2969183118, 3227803614, 3643992854, 2274437520, 123276749, 194179596, 1952073950, 509051416)"
    by (simp add: Let_def Ch_def Maj_def bsig0_def bsig1_def rotr_def)
  have r4: "foldl round (2969183118, 3227803614, 3643992854, 2274437520, 123276749, 194179596, 1952073950, 509051416) [(3835390401, 1633837952), (4022224774, 983040), (264347078, 2108187653), (604807628, 1610613702)] =
      (3790736435, 4269243327, 3271285201, 567974555, 2959311225, 3431569761, 2221859924, 2150900380)"
    by (simp add: Let_def Ch_def Maj_def bsig0_def bsig1_def rotr_def)
  have r5: "foldl round (3790736435, 4269243327, 3271285201, 567974555, 2959311225, 3431569761, 2221859924, 2150900380) [(770255983, 1050508152), (1249150122, 25426944), (1555081692, 316456923), (1996064986, 3806512014)] =
      (3319086477, 2812502591, 3261099373, 2647034723, 2856829767, 1240797514, 3777329520, 2329577776)"
    by (simp add: Let_def Ch_def Maj_def bsig0_def bsig1_def rotr_def)
  have r6: "foldl round (3319086477, 2812502591, 3261099373, 2647034723, 2856829767, 1240797514, 3777329520, 2329577776) [(2554220882, 3357629466), (2821834349, 3073800610), (2952996808, 3854317833), (3210313671, 845560923)] =
      (2010346792, 3056518332, 3454534525, 472655928, 3992961016, 3343672598, 339230094, 673443729)"
    by (simp add: Let_def Ch_def Maj_def bsig0_def bsig1_def rotr_def)
  have r7: "foldl round (2010346792, 3056518332, 3454534525, 472655928, 3992961016, 3343672598, 339230094, 673443729) [(3336571891, 2636160359), (3584528711, 3968280267), (113926993, 1881225380), (338241895, 3552024379)] =
      (1941126133, 3935906338, 2684750640, 909411017, 3126399250, 17410874, 2917635127, 1628611511)"
    by (simp add: Let_def Ch_def Maj_def bsig0_def bsig1_def rotr_def)
  have r8: "foldl round (1941126133, 3935906338, 2684750640, 909411017, 3126399250, 17410874, 2917635127, 1628611511) [(666307205, 2482346367), (773529912, 996719219), (1294757372, 2952069057), (1396182291, 4043988066)] =
      (1705037796, 2846323596, 4267724277, 2564891911, 4105175766, 140458035, 1495571923, 2631529974)"
    by (simp add: Let_def Ch_def Maj_def bsig0_def bsig1_def rotr_def)
  have r9: "foldl round (1705037796, 2846323596, 4267724277, 2564891911, 4105175766, 140458035, 1495571923, 2631529974) [(1695183700, 176896406), (1986661051, 1924104970), (2177026350, 2483675966), (2456956037, 610538786)] =
      (2045405306, 1841658506, 887035396, 1101421745, 519815328, 4034403272, 2768741693, 124953195)"
    by (simp add: Let_def Ch_def Maj_def bsig0_def bsig1_def rotr_def)
  have r10: "foldl round (2045405306, 1841658506, 887035396, 1101421745, 519815328, 4034403272, 2768741693, 124953195) [(2730485921, 2672279444), (2820302411, 4037431130), (3259730800, 1042573945), (3345764771, 657669027)] =
      (2638983059, 397020670, 3745932591, 3597076326, 4255271982, 3737995029, 2206934801, 641019235)"
    by (simp add: Let_def Ch_def Maj_def bsig0_def bsig1_def rotr_def)
  have r11: "foldl round (2638983059, 397020670, 3745932591, 3597076326, 4255271982, 3737995029, 2206934801, 641019235) [(3516065817, 206005234), (3600352804, 2215296807), (4094571909, 2049510749), (275423344, 106709978)] =
      (1098003085, 2706117808, 1923828625, 643991573, 4274981830, 3581645993, 3077922209, 2819559920)"
    by (simp add: Let_def Ch_def Maj_def bsig0_def bsig1_def rotr_def)
  have r12: "foldl round (1098003085, 2706117808, 1923828625, 643991573, 4274981830, 3581645993, 3077922209, 2819559920) [(430227734, 4215179723), (506948616, 3430291419), (659060556, 3118885940), (883997877, 2845390439)] =
      (2288941602, 2047150241, 4045142696, 91585771, 1227037726, 1391578359, 1851537676, 3178315832)"
    by (simp add: Let_def Ch_def Maj_def bsig0_def bsig1_def rotr_def)
  have r13: "foldl round (2288941602, 2047150241, 4045142696, 91585771, 1227037726, 1391578359, 1851537676, 3178315832) [(958139571, 2226839261), (1322822218, 3256115900), (1537002063, 344409900), (1747873779, 2987358873)] =
      (952932627, 1053056219, 4117770203, 270520975, 1422599787, 3842906959, 2672265155, 1386118400)"
    by (simp add: Let_def Ch_def Maj_def bsig0_def bsig1_def rotr_def)
  have r14: "foldl round (952932627, 1053056219, 4117770203, 270520975, 1422599787, 3842906959, 2672265155, 1386118400) [(1955562222, 4015503821), (2024104815, 3957764664), (2227730452, 2682456414), (2361852424, 2025622859)] =
      (3064893439, 4290184306, 3227702383, 4241590395, 2988158269, 1837350854, 2118385806, 2606665836)"
    by (simp add: Let_def Ch_def Maj_def bsig0_def bsig1_def rotr_def)
  have r15: "foldl round (3064893439, 4290184306, 3227702383, 4241590395, 2988158269, 1837350854, 2118385806, 2606665836) [(2428436474, 2755645205), (2756734187, 1720397816), (3204031479, 4004225740), (3329325298, 313650667)] =
      (1349398616, 3550093669, 80891244, 3093179625, 1593118500, 4212265488, 2492278198, 2518632596)"
    by (simp add: Let_def Ch_def Maj_def bsig0_def bsig1_def rotr_def)
  have f: "foldl round H256 (zip K256 [1633837952, 0, 0, 0, 0, 0, 0, 0, 0, 0, 0, 0, 0, 0, 0, 24, 1633837952, 983040, 2108187653, 1610613702, 1050508152, 25426944, 316456923, 3806512014, 3357629466, 3073800610, 3854317833, 845560923, 2636160359, 3968280267, 1881225380, 3552024379, 2482346367, 996719219, 2952069057, 4043988066, 176896406, 1924104970, 2483675966, 610538786, 2672279444, 4037431130, 1042573945, 657669027, 206005234, 2215296807, 2049510749, 106709978, 4215179723, 3430291419, 3118885940, 2845390439, 2226839261, 3256115900, 344409900, 2987358873, 4015503821, 3957764664, 2682456414, 2025622859, 2755645205, 1720397816, 4004225740, 313650667]) =
      (1349398616, 3550093669, 80891244, 3093179625, 1593118500, 4212265488, 2492278198, 2518632596)"
    by (simp only: z foldl_append r0 r1 r2 r3 r4 r5 r6 r7 r8 r9 r10 r11 r12 r13 r14 r15)
  have c: "compress H256 [1633837952, 0, 0, 0, 0, 0, 0, 0, 0, 0, 0, 0, 0, 0, 0, 24] =
      (3128432319, 2399260650, 1094795486, 1571693091, 2953011619, 2518121116, 3021012833, 4060091821)"
    by (simp only: compress_def s f) (simp add: H256_def)
  show ?thesis
    by (simp add: sha256_def p c bytes_of_word_def)
qed

lemma sha256_sample:
  "sha256 (replicate 32 7) =
     [75, 176, 111, 142, 78, 58, 119, 21, 210, 1, 213, 115, 208, 170, 66, 55, 98, 229, 93, 171, 214, 26, 44, 2, 39, 143, 165, 108, 198, 210, 148, 224]"
proof -
  have p: "chunks16 (words_of (pad (replicate 32 7))) =
      [[117901063, 117901063, 117901063, 117901063, 117901063, 117901063, 117901063, 117901063, 2147483648, 0, 0, 0, 0, 0, 0, 256]]"
    by (simp add: pad_def len_bytes_def be32_def replicate_numeral chunks16.simps)
  have s: "schedule [117901063, 117901063, 117901063, 117901063, 117901063, 117901063, 117901063, 117901063, 2147483648, 0, 0, 0, 0, 0, 0, 256] =
      [117901063, 117901063, 117901063, 117901063, 117901063, 117901063, 117901063, 117901063, 2147483648, 0, 0, 0, 0, 0, 0, 256, 3593877046, 3604362806, 3021894278, 3021879922, 3446980934, 2962243896, 3471776090, 383043463, 3331046306, 2941603591, 1588777964, 3686643801, 3828107635, 973099809, 3301133610, 3849131549, 1334275718, 3871833906, 1741918468, 2364990784, 963470559, 2375386976, 275596547, 2375039431, 15668457, 2595314677, 459935599, 2229213255, 169527664, 1473444709, 4073196449, 3891696031, 2511018083, 2104249912, 94539344, 641650881, 1502970769, 2285666718, 4209605993, 188770546, 3189836540, 943313472, 1060822229, 82190209, 1189343561, 2118320647, 201027281, 2600152346]"
    by (simp add: schedule_def ext_def ssig0_def ssig1_def rotr_def funpow_numeral_unfold)
  have z: "zip K256 [117901063, 117901063, 117901063, 117901063, 117901063, 117901063, 117901063, 117901063, 2147483648, 0, 0, 0, 0, 0, 0, 256, 3593877046, 3604362806, 3021894278, 3021879922, 3446980934, 2962243896, 3471776090, 383043463, 3331046306, 2941603591, 1588777964, 3686643801, 3828107635, 973099809, 3301133610, 3849131549, 1334275718, 3871833906, 1741918468, 2364990784, 963470559, 2375386976, 275596547, 2375039431, 15668457, 2595314677, 459935599, 2229213255, 169527664, 1473444709, 4073196449, 3891696031, 2511018083, 2104249912, 94539344, 641650881, 1502970769, 2285666718, 4209605993, 188770546, 3189836540, 943313472, 1060822229, 82190209, 1189343561, 2118320647, 201027281, 2600152346] =
      [(1116352408, 117901063), (1899447441, 117901063), (3049323471, 117901063), (3921009573, 117901063)] @
      [(961987163, 117901063), (1508970993, 117901063), (2453635748, 117901063), (2870763221, 117901063)] @
      [(3624381080, 2147483648), (310598401, 0), (607225278, 0), (1426881987, 0)] @
      [(1925078388, 0), (2162078206, 0), (2614888103, 0), (3248222580, 256)] @
      [(3835390401, 3593877046), (4022224774, 3604362806), (264347078, 3021894278), (604807628, 3021879922)] @
      [(770255983, 3446980934), (1249150122, 2962243896), (1555081692, 3471776090), (1996064986, 383043463)] @
      [(2554220882, 3331046306), (2821834349, 2941603591), (2952996808, 1588777964), (3210313671, 3686643801)] @
      [(3336571891, 3828107635), (3584528711, 973099809), (113926993, 3301133610), (338241895, 3849131549)] @
      [(666307205, 1334275718), (773529912, 3871833906), (1294757372, 1741918468), (1396182291, 2364990784)] @
      [(1695183700, 963470559), (1986661051, 2375386976), (2177026350, 275596547), (2456956037, 2375039431)] @
      [(2730485921, 15668457), (2820302411, 2595314677), (3259730800, 459935599), (3345764771, 2229213255)] @
      [(3516065817, 169527664), (3600352804, 1473444709), (4094571909, 4073196449), (275423344, 3891696031)] @
      [(430227734, 2511018083), (506948616, 2104249912), (659060556, 94539344), (883997877, 641650881)] @
      [(958139571, 1502970769), (1322822218, 2285666718), (1537002063, 4209605993), (1747873779, 188770546)] @
      [(1955562222, 3189836540), (2024104815, 943313472), (2227730452, 1060822229), (2361852424, 82190209)] @
      [(2428436474, 1189343561), (2756734187, 2118320647), (3204031479, 201027281), (3329325298, 2600152346)]"
    by (simp add: K256_def)
  have r0: "foldl round H256 [(1116352408, 117901063), (1899447441, 117901063), (3049323471, 117901063), (3921009573, 117901063)] =
      (4059911591, 1593204028, 2356663822, 51351380, 644074348, 1142724975, 1501065110, 2681137577)"
    by (simp add: H256_def Let_def Ch_def Maj_def bsig0_def bsig1_def rotr_def)
  have r1: "foldl round (4059911591, 1593204028, 2356663822, 51351380, 644074348, 1142724975, 1501065110, 2681137577) [(961987163, 117901063), (1508970993, 117901063), (2453635748, 117901063), (2870763221, 117901063)] =
      (2787100424, 3900375023, 2693312673, 2873880770, 20179007, 3585719705, 771523655, 760079780)"
    by (simp add: Let_def Ch_def Maj_def bsig0_def bsig1_def rotr_def)
  have r2: "foldl round (2787100424, 3900375023, 2693312673, 2873880770, 20179007, 3585719705, 771523655, 760079780) [(3624381080, 2147483648), (310598401, 0), (607225278, 0), (1426881987, 0)] =
      (4128492902, 1269363876, 3094992268, 610143807, 1604308610, 714516795, 4090321168, 3232768948)"
    by (simp add: Let_def Ch_def Maj_def bsig0_def bsig1_def rotr_def)
  have r3: "foldl round (4128492902, 1269363876, 3094992268, 610143807, 1604308610, 714516795, 4090321168, 3232768948) [(1925078388, 0), (2162078206, 0), (2614888103, 0), (3248222580, 256)] =
      (3499584791, 309660421, 206061972, 2295895529, 4122571736, 2735806383, 1257995167, 427161189)"
    by (simp add: Let_def Ch_def Maj_def bsig0_def bsig1_def rotr_def)
  have r4: "foldl round (3499584791, 309660421, 206061972, 2295895529, 4122571736, 2735806383, 1257995167, 427161189) [(3835390401, 3593877046), (4022224774, 3604362806), (264347078, 3021894278), (604807628, 3021879922)] =
      (1821167751, 1366944555, 1599428063, 361806423, 2099897855, 3789596217, 97685014, 3437561455)"
    by (simp add: Let_def Ch_def Maj_def bsig0_def bsig1_def rotr_def)
  have r5: "foldl round (1821167751, 1366944555, 1599428063, 361806423, 2099897855, 3789596217, 97685014, 3437561455) [(770255983, 3446980934), (1249150122, 2962243896), (1555081692, 3471776090), (1996064986, 383043463)] =
      (2112804331, 3410673696, 2690878634, 3403136758, 123973725, 4034773998, 2598536631, 380656073)"
    by (simp add: Let_def Ch_def Maj_def bsig0_def bsig1_def rotr_def)
  have r6: "foldl round (2112804331, 3410673696, 2690878634, 3403136758, 123973725, 4034773998, 2598536631, 380656073) [(2554220882, 3331046306), (2821834349, 2941603591), (2952996808, 1588777964), (3210313671, 3686643801)] =
      (3456332904, 2454031053, 2342911380, 2443441540, 2473952761, 1781327109, 1250185830, 2811819989)"
    by (simp add: Let_def Ch_def Maj_def bsig0_def bsig1_def rotr_def)
  have r7: "foldl round (3456332904, 2454031053, 2342911380, 2443441540, 2473952761, 1781327109, 1250185830, 2811819989) [(3336571891, 3828107635), (3584528711, 973099809), (113926993, 3301133610), (338241895, 3849131549)] =
      (2430754845, 2219305632, 136952948, 2820961205, 1795194699, 1192231561, 2740960173, 313220660)"
    by (simp add: Let_def Ch_def Maj_def bsig0_def bsig1_def rotr_def)
  have r8: "foldl round (2430754845, 2219305632, 136952948, 2820961205, 1795194699, 1192231561, 2740960173, 313220660) [(666307205, 1334275718), (773529912, 3871833906), (1294757372, 1741918468), (1396182291, 2364990784)] =
      (1732360822, 3269736169, 1334430160, 28606, 1584852235, 3429132521, 3676452764, 980193768)"
    by (simp add: Let_def Ch_def Maj_def bsig0_def bsig1_def rotr_def)
  have r9: "foldl round (1732360822, 3269736169, 1334430160, 28606, 1584852235, 3429132521, 3676452764, 980193768) [(1695183700, 963470559), (1986661051, 2375386976), (2177026350, 275596547), (2456956037, 2375039431)] =
      (1947057476, 216481624, 281813333, 4059676027, 1700622725, 3756188243, 2334137686, 1571677500)"
    by (simp add: Let_def Ch_def Maj_def bsig0_def bsig1_def rotr_def)
  have r10: "foldl round (1947057476, 216481624, 281813333, 4059676027, 1700622725, 3756188243, 2334137686, 1571677500) [(2730485921, 15668457), (2820302411, 2595314677), (3259730800, 459935599), (3345764771, 2229213255)] =
      (601620197, 4075140986, 1821592141, 853641267, 2471829622, 1189407442, 1031304327, 1312303470)"
    by (simp add: Let_def Ch_def Maj_def bsig0_def bsig1_def rotr_def)
  have r11: "foldl round (601620197, 4075140986, 1821592141, 853641267, 2471829622, 1189407442, 1031304327, 1312303470) [(3516065817, 169527664), (3600352804, 1473444709), (4094571909, 4073196449), (275423344, 3891696031)] =
      (2565774299, 3845554128, 2837264672, 156879244, 4118227821, 387692961, 3368450809, 155377001)"
    by (simp add: Let_def Ch_def Maj_def bsig0_def bsig1_def rotr_def)
  have r12: "foldl round (2565774299, 3845554128, 2837264672, 156879244, 4118227821, 387692961, 3368450809, 155377001) [(430227734, 2511018083), (506948616, 2104249912), (659060556, 94539344), (883997877, 641650881)] =
      (3701089083, 2051111531, 4035743968, 1676361974, 4204612796, 3844228523, 2238797638, 1098825425)"
    by (simp add: Let_def Ch_def Maj_def bsig0_def bsig1_def rotr_def)
  have r13: "foldl round (3701089083, 2051111531, 4035743968, 1676361974, 4204612796, 3844228523, 2238797638, 1098825425) [(958139571, 1502970769), (1322822218, 2285666718), (1537002063, 4209605993), (1747873779, 188770546)] =
      (753559048, 2402866637, 2354213328, 1667290557, 1260271837, 1490035113, 2352526225, 1213161691)"
    by (simp add: Let_def Ch_def Maj_def bsig0_def bsig1_def rotr_def)
  have r14: "foldl round (753559048, 2402866637, 2354213328, 1667290557, 1260271837, 1490035113, 2352526225, 1213161691) [(1955562222, 3189836540), (2024104815, 943313472), (2227730452, 1060822229), (2361852424, 82190209)] =
      (4011176335, 2520051124, 1704596669, 1210604537, 1009279304, 602148959, 3105127464, 2351619468)"
    by (simp add: Let_def Ch_def Maj_def bsig0_def bsig1_def rotr_def)
  have r15: "foldl round (4011176335, 2520051124, 1704596669, 1210604537, 1009279304, 602148959, 3105127464, 2351619468) [(2428436474, 1189343561), (2756734187, 2118320647), (3204031479, 201027281), (3329325298, 2600152346)] =
      (3785787687, 2463287440, 2509431297, 727338237, 299305772, 991216502, 134990785, 1794230215)"
    by (simp add: Let_def Ch_def Maj_def bsig0_def bsig1_def rotr_def)
  have f: "foldl round H256 (zip K256 [117901063, 117901063, 117901063, 117901063, 117901063, 117901063, 117901063, 117901063, 2147483648, 0, 0, 0, 0, 0, 0, 256, 3593877046, 3604362806, 3021894278, 3021879922, 3446980934, 2962243896, 3471776090, 383043463, 3331046306, 2941603591, 1588777964, 3686643801, 3828107635, 973099809, 3301133610, 3849131549, 1334275718, 3871833906, 1741918468, 2364990784, 963470559, 2375386976, 275596547, 2375039431, 15668457, 2595314677, 459935599, 2229213255, 169527664, 1473444709, 4073196449, 3891696031, 2511018083, 2104249912, 94539344, 641650881, 1502970769, 2285666718, 4209605993, 188770546, 3189836540, 943313472, 1060822229, 82190209, 1189343561, 2118320647, 201027281, 2600152346]) =
      (3785787687, 2463287440, 2509431297, 727338237, 299305772, 991216502, 134990785, 1794230215)"
    by (simp only: z foldl_append r0 r1 r2 r3 r4 r5 r6 r7 r8 r9 r10 r11 r12 r13 r14 r15)
  have c: "compress H256 [117901063, 117901063, 117901063, 117901063, 117901063, 117901063, 117901063, 117901063, 2147483648, 0, 0, 0, 0, 0, 0, 256] =
      (1269854094, 1312454421, 3523335539, 3500818999, 1659198891, 3592039426, 663725420, 3335689440)"
    by (simp only: compress_def s f) (simp add: H256_def)
  show ?thesis
    by (simp add: sha256_def p c bytes_of_word_def)
qed

lemma wrong_secret_digest: "sha256 [0x61, 0x62, 0x63] \<noteq> sha256 (replicate 32 7)"
  by (simp add: sha256_abc sha256_sample)


lemma hexval_hexdigit: "n < 16 \<Longrightarrow> hexval (hexdigit n) = Some n"
proof -
  assume "n < 16"
  then have "n \<in> {0, 1, 2, 3, 4, 5, 6, 7, 8, 9, 10, 11, 12, 13, 14, 15}"
    by (simp; arith)
  then show ?thesis
    by (auto simp: hexval_def hexdigit_def)
qed

lemma isHexChar_hexdigit: "n < 16 \<Longrightarrow> isHexChar (hexdigit n)"
  by (simp add: isHexChar_def hexval_hexdigit)

lemma hexdigit_not_underscore: "n < 16 \<Longrightarrow> hexdigit n \<noteq> CHR ''_''"
proof -
  assume "n < 16"
  then have "hexval (hexdigit n) = Some n" by (rule hexval_hexdigit)
  moreover have "hexval CHR ''_'' = None" by (simp add: hexval_def)
  ultimately show ?thesis by auto
qed

lemma byte_nibbles: "of_nat (16 * (unat b div 16) + unat b mod 16) = (b :: byte)"
  by simp

lemma unat_byte_div16: "unat (b :: byte) div 16 < 16"
proof -
  have "unat b < 256" using unsigned_less [of b] by simp
  then show ?thesis by simp
qed

lemma fromHex_toHex_append:
  "fromHex (toHex bs @ r) = bs @ fromHex r"
  by (induction bs) (simp_all add: toHex_def hexval_hexdigit unat_byte_div16 byte_nibbles)

lemma fromHex_toHex: "fromHex (toHex bs) = bs"
  using fromHex_toHex_append [of bs "[]"] by simp

lemma toHex_inject: "toHex a = toHex b \<longleftrightarrow> a = b"
  by (metis fromHex_toHex)

lemma length_toHex: "length (toHex bs) = 2 * length bs"
  by (induction bs) (simp_all add: toHex_def)

lemma toHex_chars: "c \<in> set (toHex bs) \<Longrightarrow> isHexChar c"
  by (auto simp: toHex_def isHexChar_hexdigit unat_byte_div16)

lemma toHex_no_underscore: "CHR ''_'' \<notin> set (toHex bs)"
proof
  assume "CHR ''_'' \<in> set (toHex bs)"
  then have "isHexChar CHR ''_''" by (rule toHex_chars)
  then show False by (simp add: isHexChar_def hexval_def)
qed

lemma replace_0x_prefixed: "replace_0x (''0x'' @ h) = h"
  by simp




section \<open>Facts about the escrow\<close>

lemma replace_0x_hex0x: "replace_0x (hex0x bs) = toHex bs"
  by (simp add: hex0x_def)

lemma validateSecret_iff:
  "hashlock cfg = hex0x d \<Longrightarrow> validateSecret cfg s \<longleftrightarrow> sha256 (fromHex (replace_0x s)) = d"
  by (simp add: validateSecret_def replace_0x_hex0x toHex_inject)

lemma validateSecret_hex0x:
  "hashlock cfg = hex0x d \<Longrightarrow> validateSecret cfg (hex0x bs) \<longleftrightarrow> sha256 bs = d"
  by (simp add: validateSecret_iff replace_0x_hex0x fromHex_toHex)

lemma expired_iff: "isTimelockExpired w cfg \<longleftrightarrow> timelock cfg * 1000 < date_now w"
proof -
  have "real_of_int (timelock cfg) < real_of_int (date_now w) / 1000
        \<longleftrightarrow> real_of_int (timelock cfg) * 1000 < real_of_int (date_now w)"
    by (simp add: pos_less_divide_eq)
  also have "\<dots> \<longleftrightarrow> real_of_int (timelock cfg * 1000) < real_of_int (date_now w)"
    by simp
  also have "\<dots> \<longleftrightarrow> timelock cfg * 1000 < date_now w"
    by (simp only: of_int_less_iff)
  finally show ?thesis by (simp add: isTimelockExpired_def)
qed

lemma generateHashlock_config:
  "st_stellarHTLC (generateHashlock w s st) = Some cfg \<Longrightarrow>
   hashlock cfg = hex0x (sha256 s) \<and> secret cfg = hex0x s \<and>
   timelock cfg = date_now w div 1000 + 86400"
  by (auto simp: generateHashlock_def Let_def)

lemma claim_result:
  "createClaimingTransaction w cfg s kp =
     (if \<not> validateSecret cfg s then Inl Invalid_secret_provided
      else if timelock cfg * 1000 < date_now w then Inl Timelock_has_expired
      else case backend w kp Claim (''HTLC_CLAIM_'' @ generateContractId cfg @ ''_'' @ replace_0x s) of
             None \<Rightarrow> Inl (Failed_to_create Claim)
           | Some (i, x, h) \<Rightarrow>
               Inr \<lparr>tx_id = i, tx_type = Claim, tx_from = makerAddress cfg,
                    tx_to = makerAddress cfg, tx_amount = amount cfg,
                    tx_memo = ''HTLC_CLAIM_'' @ generateContractId cfg @ ''_'' @ replace_0x s,
                    tx_xdr = x, tx_hash = h\<rparr>)"
  by (simp add: createClaimingTransaction_def expired_iff Let_def split: option.splits)

lemma refund_result:
  "createRefundTransaction w cfg kp =
     (if date_now w \<le> timelock cfg * 1000 then Inl Timelock_has_not_expired_yet
      else case backend w kp Refund (''HTLC_REFUND_'' @ generateContractId cfg) of
             None \<Rightarrow> Inl (Failed_to_create Refund)
           | Some (i, x, h) \<Rightarrow>
               Inr \<lparr>tx_id = i, tx_type = Refund, tx_from = makerAddress cfg,
                    tx_to = takerAddress cfg, tx_amount = amount cfg,
                    tx_memo = ''HTLC_REFUND_'' @ generateContractId cfg,
                    tx_xdr = x, tx_hash = h\<rparr>)"
  by (simp add: createRefundTransaction_def expired_iff Let_def not_less split: option.splits)

lemma sample_secret_valid: "validateSecret sample_config (hex0x (replicate 32 7))"
  by (simp add: validateSecret_hex0x sample_config_def)

lemma strip_prefix_append: "strip_prefix p (p @ r) = Some r"
  by (induction p) simp_all

lemma strip_prefix_Some: "strip_prefix p s = Some r \<Longrightarrow> s = p @ r"
  by (induction p s rule: strip_prefix.induct) (auto split: if_splits)

lemma match_at_sublist:
  assumes "match_at s = Some g"
  shows "sublist g s \<and> g \<noteq> [] \<and> list_all isHexChar g"
proof -
  from assms obtain r where r: "strip_prefix ''HTLC_CLAIM_'' s = Some r"
    by (auto simp: match_at_def split: option.splits)
  with assms obtain u r' where d: "dropWhile (\<lambda>c. c \<noteq> CHR ''_'') r = u # r'"
    and g: "g = takeWhile isHexChar r'" "g \<noteq> []"
    by (auto simp: match_at_def split: option.splits if_splits list.splits)
  have "s = ''HTLC_CLAIM_'' @ r" using r by (rule strip_prefix_Some)
  also have "r = takeWhile (\<lambda>c. c \<noteq> CHR ''_'') r @ u # r'"
    using d by (metis takeWhile_dropWhile_id)
  also have "r' = g @ dropWhile isHexChar r'"
    using g by simp
  finally have "s = (''HTLC_CLAIM_'' @ takeWhile (\<lambda>c. c \<noteq> CHR ''_'') r @ [u]) @ g @ dropWhile isHexChar r'"
    by simp
  then have "sublist g s"
    unfolding sublist_def by blast
  moreover have "list_all isHexChar g"
    using g by (simp add: list_all_iff) (meson set_takeWhileD)
  ultimately show ?thesis using g by simp
qed

lemma memoMatch_sublist:
  "memoMatch m = Some g \<Longrightarrow> sublist g m \<and> g \<noteq> [] \<and> list_all isHexChar g"
proof (induction m)
  case Nil
  then have "match_at [] = Some g" by simp
  then show ?case by (rule match_at_sublist)
next
  case (Cons c cs)
  show ?case
  proof (cases "match_at (c # cs)")
    case None
    with Cons.prems have "memoMatch cs = Some g" by simp
    with Cons.IH have "sublist g cs \<and> g \<noteq> [] \<and> list_all isHexChar g" by simp
    then show ?thesis by (simp add: sublist_Cons_right)
  next
    case (Some a)
    with Cons.prems have "match_at (c # cs) = Some g" by simp
    then show ?thesis by (rule match_at_sublist)
  qed
qed

lemma match_at_claim_memo:
  assumes "cid \<noteq> []" "CHR ''_'' \<notin> set cid" "g \<noteq> []" "list_all isHexChar g"
  shows "match_at (''HTLC_CLAIM_'' @ cid @ ''_'' @ g) = Some g"
proof -
  have ne: "\<And>x. x \<in> set cid \<Longrightarrow> x \<noteq> CHR ''_''"
    using assms(2) by auto
  have "takeWhile (\<lambda>c. c \<noteq> CHR ''_'') (cid @ CHR ''_'' # g) =
        cid @ takeWhile (\<lambda>c. c \<noteq> CHR ''_'') (CHR ''_'' # g)"
    using ne by (rule takeWhile_append2)
  then have t: "takeWhile (\<lambda>c. c \<noteq> CHR ''_'') (cid @ CHR ''_'' # g) = cid"
    by simp
  have "dropWhile (\<lambda>c. c \<noteq> CHR ''_'') (cid @ CHR ''_'' # g) =
        dropWhile (\<lambda>c. c \<noteq> CHR ''_'') (CHR ''_'' # g)"
    using ne by (rule dropWhile_append2)
  then have d: "dropWhile (\<lambda>c. c \<noteq> CHR ''_'') (cid @ CHR ''_'' # g) = CHR ''_'' # g"
    by simp
  have h: "takeWhile isHexChar g = g"
    using assms(4) by (simp add: list_all_iff)
  have sp: "strip_prefix ''HTLC_CLAIM_'' (''HTLC_CLAIM_'' @ cid @ ''_'' @ g) = Some (cid @ ''_'' @ g)"
    by (rule strip_prefix_append)
  show ?thesis
    unfolding match_at_def sp by (simp add: t d h assms(1,3))
qed

lemma memoMatch_claim_memo:
  assumes "cid \<noteq> []" "CHR ''_'' \<notin> set cid" "g \<noteq> []" "list_all isHexChar g"
  shows "memoMatch (''HTLC_CLAIM_'' @ cid @ ''_'' @ g) = Some g"
proof -
  have "match_at (''HTLC_CLAIM_'' @ cid @ ''_'' @ g) = Some g"
    using assms by (rule match_at_claim_memo)
  then show ?thesis by simp
qed

lemma contractId_shape:
  "generateContractId cfg \<noteq> [] \<and> CHR ''_'' \<notin> set (generateContractId cfg)"
proof -
  have "length (generateContractId cfg) = 16"
    by (simp add: generateContractId_def length_toHex length_sha256)
  moreover have "CHR ''_'' \<notin> set (generateContractId cfg)"
    unfolding generateContractId_def using toHex_no_underscore by (meson in_set_takeD)
  ultimately show ?thesis by auto
qed

lemma extract_claim_memo:
  assumes "g \<noteq> []" "list_all isHexChar g" "validateSecret cfg (''0x'' @ g)"
    and "tx_type tx = Claim" "tx_memo tx = ''HTLC_CLAIM_'' @ generateContractId cfg @ ''_'' @ g"
  shows "extractSecretFromTransaction cfg tx = Some (''0x'' @ g)"
proof -
  have "memoMatch (''HTLC_CLAIM_'' @ generateContractId cfg @ ''_'' @ g) = Some g"
    using contractId_shape [of cfg] assms(1,2) by (intro memoMatch_claim_memo) auto
  then have "memoMatch (tx_memo tx) = Some g"
    by (simp only: assms(5))
  then show ?thesis
    using assms(3,4) by (simp add: extractSecretFromTransaction_def)
qed

lemma length_generateContractId: "length (generateContractId cfg) = 16"
  by (simp add: generateContractId_def length_toHex length_sha256)

text \<open>
  The round trip through the memo, for a secret written as \<open>0x\<close> and hexadecimal digits,
  wherever the envelope is built, as in the class with mock envelopes.
\<close>

lemma claim_memo_roundtrip:
  assumes "s = ''0x'' @ g" "g \<noteq> []" "list_all isHexChar g"
    and "validateSecret cfg s" "\<not> isTimelockExpired w cfg"
    and "backend w kp Claim (''HTLC_CLAIM_'' @ generateContractId cfg @ ''_'' @ g) = Some e"
  shows "\<exists>tx. createClaimingTransaction w cfg s kp = Inr tx \<and>
              extractSecretFromTransaction cfg tx = Some s"
proof -
  obtain i x h where e: "e = (i, x, h)" by (cases e)
  let ?tx = "\<lparr>tx_id = i, tx_type = Claim, tx_from = makerAddress cfg,
              tx_to = makerAddress cfg, tx_amount = amount cfg,
              tx_memo = ''HTLC_CLAIM_'' @ generateContractId cfg @ ''_'' @ g,
              tx_xdr = x, tx_hash = h\<rparr>"
  have r: "replace_0x s = g"
    using assms(1) by simp
  have "createClaimingTransaction w cfg s kp = Inr ?tx"
    using assms(4,5,6) e by (simp add: createClaimingTransaction_def r Let_def)
  moreover have "extractSecretFromTransaction cfg ?tx = Some (''0x'' @ g)"
    using assms(1,2,3,4) by (intro extract_claim_memo) simp_all
  ultimately show ?thesis
    using assms(1) by simp
qed

lemma replace_0x_no_x: "CHR ''x'' \<notin> set s \<Longrightarrow> replace_0x s = s"
  by (induction s rule: replace_0x.induct) auto

lemma toHex_no_x: "CHR ''x'' \<notin> set (toHex bs)"
proof
  assume "CHR ''x'' \<in> set (toHex bs)"
  then have "isHexChar CHR ''x''" by (rule toHex_chars)
  then show False by (simp add: isHexChar_def hexval_def)
qed

lemma validateSecret_needs_64:
  "length (replace_0x (hashlock cfg)) \<noteq> 64 \<Longrightarrow> \<not> validateSecret cfg s"
  by (auto simp: validateSecret_def Let_def dest!: arg_cong [where f = length] simp: length_toHex length_sha256)

lemma sample_hex: "toHex (replicate 32 (7 :: byte)) \<noteq> [] \<and> list_all isHexChar (toHex (replicate 32 (7 :: byte)))"
proof -
  have "length (toHex (replicate 32 (7 :: byte))) = 64"
    by (simp add: length_toHex)
  then have "toHex (replicate 32 (7 :: byte)) \<noteq> []"
    by auto
  then show ?thesis
    by (simp add: list_all_iff toHex_chars)
qed

lemma bit_below: "0 \<le> x \<Longrightarrow> x < 2 ^ n \<Longrightarrow> bit (x :: int) i \<Longrightarrow> i < n"
  by (metis bit_take_bit_iff take_bit_int_eq_self)

lemma pack_fields:
  fixes a b c now :: int
  assumes a: "0 \<le> a" "a < 2 ^ 32" and b: "0 \<le> b" "b < 2 ^ 32" and c: "0 \<le> c" "c < 2 ^ 32"
  defines "p \<equiv> push_bit 224 now OR push_bit 0 a OR push_bit 32 b OR push_bit 64 c"
  shows "field32 0 p = a" "field32 32 p = b" "field32 64 p = c" "deployedAt p = now"
    "take_bit 128 (drop_bit 96 p) = 0"
proof -
  note lim = bit_below [OF a] bit_below [OF b] bit_below [OF c]
  show "field32 0 p = a"
    unfolding field32_def p_def
    by (rule bit_eqI) (auto simp: bit_simps dest: lim)
  show "field32 32 p = b"
    unfolding field32_def p_def
    by (rule bit_eqI) (auto simp: bit_simps dest: lim)
  show "field32 64 p = c"
    unfolding field32_def p_def
    by (rule bit_eqI) (auto simp: bit_simps dest: lim)
  show "deployedAt p = now"
    unfolding deployedAt_def p_def
    by (rule bit_eqI) (auto simp: bit_simps dest: lim)
  show "take_bit 128 (drop_bit 96 p) = 0"
    unfolding p_def
    by (rule bit_eqI) (auto simp: bit_simps dest: lim)
qed

lemma packTimelocks_decode:
  assumes "0 \<le> withdrawal tls - now" "withdrawal tls - now < 2 ^ 32"
    and "0 \<le> publicWithdrawal tls - now" "publicWithdrawal tls - now < 2 ^ 32"
    and "0 \<le> cancellation tls - now" "cancellation tls - now < 2 ^ 32"
  shows "field32 0 (packTimelocks now tls) = withdrawal tls - now"
    and "field32 32 (packTimelocks now tls) = publicWithdrawal tls - now"
    and "field32 64 (packTimelocks now tls) = cancellation tls - now"
    and "deployedAt (packTimelocks now tls) = now"
    and "take_bit 128 (drop_bit 96 (packTimelocks now tls)) = 0"
  unfolding packTimelocks_def using assms by (rule pack_fields)+

lemma script_timelocks_decode:
  "deployedAt (packTimelocks now \<lparr>withdrawal = now + 3600, publicWithdrawal = now + 21600,
       cancellation = now + 86400\<rparr>) = now \<and>
   field32 64 (packTimelocks now \<lparr>withdrawal = now + 3600, publicWithdrawal = now + 21600,
       cancellation = now + 86400\<rparr>) = 86400"
  by (simp add: packTimelocks_decode)

lemma length_hex0x_sha256: "length (hex0x (sha256 bs)) = 66"
  by (simp add: hex0x_def length_toHex length_sha256)


lemma run_operations_map:
  "run_operations cfg kp ops = map (\<lambda>(w, operation). apply_operation cfg kp w operation) ops"
  by (induction ops) auto

lemma run_operations_nth:
  "j < length ops \<Longrightarrow>
   run_operations cfg kp ops ! j = apply_operation cfg kp (fst (ops ! j)) (snd (ops ! j))"
  by (simp add: run_operations_map case_prod_unfold)

lemma abc_rejected: "\<not> validateSecret sample_config ''0x616263''"
proof -
  have "fromHex ''616263'' = [0x61, 0x62, 0x63]"
    by (simp add: hexval_def)
  moreover have "hashlock sample_config = hex0x (sha256 (replicate 32 7))"
    by (simp add: sample_config_def)
  ultimately show ?thesis
    using wrong_secret_digest by (simp add: validateSecret_iff)
qed




text \<open>
  The two sample states: the first is what the two steps of the script leave, and its
  immutables encode; in the second the digest of the secret is not the hashlock.
\<close>

lemma locked_state_reached:
  "lockETHIntoHTLC (mock_world 5000) sample_factory (hex0x (replicate 32 1)) 2
     (generateHashlock (mock_world 5000) (replicate 32 7) sample_state) =
   (Inr locked_state, [CreateDstEscrow sample_immutables 1100000000000000])"
  by (simp add: lockETHIntoHTLC_def generateHashlock_def Let_def mock_world_def
      sample_factory_def sample_state_def locked_state_def sample_immutables_def
      sample_config_def)




section \<open>The claims\<close>

subsection \<open>C1\<close>

text \<open>
  Claim C1, as the code has it. The escrow object records no claim and no refund: in a
  sequence of operations on it, each gives what it would give alone in its world. What
  separates claim and refund is the clock: in one world they never both succeed, and when
  the clock readings of a sequence do not decrease, a claim after a successful refund
  fails, with \<open>Invalid secret provided\<close> or \<open>Timelock has expired\<close>.
\<close>

theorem no_terminal_state:
  "j < length ops \<Longrightarrow>
   run_operations cfg kp ops ! j = apply_operation cfg kp (fst (ops ! j)) (snd (ops ! j)) \<and>
   (\<not> (\<not> isl (createClaimingTransaction w cfg s kp) \<and> \<not> isl (createRefundTransaction w cfg kp))) \<and>
   (sorted (map (date_now \<circ> fst) ops) \<and> i < j \<and> snd (ops ! i) = DoRefund \<and>
    \<not> isl (run_operations cfg kp ops ! i) \<and> snd (ops ! j) = DoClaim s \<longrightarrow>
      run_operations cfg kp ops ! j = Inl Invalid_secret_provided \<or>
      run_operations cfg kp ops ! j = Inl Timelock_has_expired)"
proof -
  assume j: "j < length ops"
  have 1: "run_operations cfg kp ops ! j = apply_operation cfg kp (fst (ops ! j)) (snd (ops ! j))"
    using j by (rule run_operations_nth)
  have 2: "\<not> (\<not> isl (createClaimingTransaction w cfg s kp) \<and> \<not> isl (createRefundTransaction w cfg kp))"
    by (auto simp: claim_result refund_result split: option.splits)
  have 3: "run_operations cfg kp ops ! j = Inl Invalid_secret_provided \<or>
      run_operations cfg kp ops ! j = Inl Timelock_has_expired"
    if srt: "sorted (map (date_now \<circ> fst) ops)" and ij: "i < j"
      and r: "snd (ops ! i) = DoRefund" "\<not> isl (run_operations cfg kp ops ! i)"
      and c: "snd (ops ! j) = DoClaim s"
  proof -
    have i: "i < length ops" using ij j by simp
    from r i have "\<not> isl (createRefundTransaction (fst (ops ! i)) cfg kp)"
      by (simp add: run_operations_nth apply_operation_def)
    then have e: "timelock cfg * 1000 < date_now (fst (ops ! i))"
      by (auto simp: refund_result split: if_splits)
    have "map (date_now \<circ> fst) ops ! i \<le> map (date_now \<circ> fst) ops ! j"
      using srt ij j by (simp add: sorted_iff_nth_mono)
    then have "date_now (fst (ops ! i)) \<le> date_now (fst (ops ! j))"
      using i j by simp
    with e have "timelock cfg * 1000 < date_now (fst (ops ! j))" by simp
    then show ?thesis
      using c j by (simp add: run_operations_nth apply_operation_def claim_result)
  qed
  from 1 2 3 show ?thesis by blast
qed

text \<open>
  Claim C1 at a refund after the deadline followed by a claim.
\<close>

theorem no_terminal_state_witness:
  "run_operations sample_config ''GMAKER''
     [(mock_world 100001, DoRefund), (mock_world 100002, DoClaim (hex0x (replicate 32 7)))] ! 1
   = Inl Timelock_has_expired"
proof -
  let ?ops = "[(mock_world 100001, DoRefund), (mock_world 100002, DoClaim (hex0x (replicate 32 7)))]"
  have s: "sorted (map (date_now \<circ> fst) ?ops)"
    by (simp add: mock_world_def)
  have r: "\<not> isl (run_operations sample_config ''GMAKER'' ?ops ! 0)"
    by (simp add: apply_operation_def refund_result) (simp add: mock_world_def sample_config_def)
  have n: "run_operations sample_config ''GMAKER'' ?ops ! 1 \<noteq> Inl Invalid_secret_provided"
    using sample_secret_valid
    by (simp add: apply_operation_def claim_result mock_world_def)
  from no_terminal_state [of 1 ?ops sample_config "''GMAKER''" _ "hex0x (replicate 32 7)" 0] s r n
  show ?thesis by simp
qed

text \<open>
  Claim C1, as stated, fails: a claim, the same claim again, a refund after the deadline
  and a second refund all succeed on one escrow.
\<close>

theorem no_terminal_state_counterexample:
  "map isl (run_operations sample_config ''GMAKER''
     [(mock_world 0, DoClaim (hex0x (replicate 32 7))),
      (mock_world 1, DoClaim (hex0x (replicate 32 7))),
      (mock_world 100001, DoRefund),
      (mock_world 100002, DoRefund)]) = [False, False, False, False]"
  using sample_secret_valid
  by (simp add: apply_operation_def claim_result refund_result)
     (simp add: mock_world_def sample_config_def)

subsection \<open>C3\<close>

text \<open>
  Claim C3, as the code has it. With \<open>D\<close> the deadline in seconds and the clock in
  milliseconds: a claim succeeds exactly when the secret validates, the clock is at or
  before \<open>D\<close> and the envelope is built; it fails with \<open>Invalid secret provided\<close> exactly
  when the secret does not validate, whatever the clock, and with
  \<open>Timelock has expired\<close> exactly when the secret validates and the clock is after \<open>D\<close>.
  A refund succeeds exactly when the clock is after \<open>D\<close> and the envelope is built, and
  fails with \<open>Timelock has not expired yet\<close> exactly when the clock is at or before \<open>D\<close>.
\<close>

theorem single_stage_gating:
  "((\<exists>tx. createClaimingTransaction w cfg s kp = Inr tx) \<longleftrightarrow>
      validateSecret cfg s \<and> date_now w \<le> timelock cfg * 1000 \<and>
      backend w kp Claim (''HTLC_CLAIM_'' @ generateContractId cfg @ ''_'' @ replace_0x s) \<noteq> None) \<and>
   (createClaimingTransaction w cfg s kp = Inl Invalid_secret_provided \<longleftrightarrow>
      \<not> validateSecret cfg s) \<and>
   (createClaimingTransaction w cfg s kp = Inl Timelock_has_expired \<longleftrightarrow>
      validateSecret cfg s \<and> timelock cfg * 1000 < date_now w) \<and>
   ((\<exists>tx. createRefundTransaction w cfg kp = Inr tx) \<longleftrightarrow>
      timelock cfg * 1000 < date_now w \<and>
      backend w kp Refund (''HTLC_REFUND_'' @ generateContractId cfg) \<noteq> None) \<and>
   (createRefundTransaction w cfg kp = Inl Timelock_has_not_expired_yet \<longleftrightarrow>
      date_now w \<le> timelock cfg * 1000)"
  by (auto simp: claim_result refund_result split: option.splits)

text \<open>
  Claim C3 at the deadline, one millisecond after it, and with a secret that is not the
  escrow's.
\<close>

theorem single_stage_gating_witness:
  "(\<exists>tx. createClaimingTransaction (mock_world 100000) sample_config (hex0x (replicate 32 7)) ''GMAKER'' = Inr tx) \<and>
   createRefundTransaction (mock_world 100000) sample_config ''GMAKER'' = Inl Timelock_has_not_expired_yet \<and>
   createClaimingTransaction (mock_world 100001) sample_config (hex0x (replicate 32 7)) ''GMAKER'' = Inl Timelock_has_expired \<and>
   (\<exists>tx. createRefundTransaction (mock_world 100001) sample_config ''GMAKER'' = Inr tx) \<and>
   createClaimingTransaction (mock_world 0) sample_config ''0x616263'' ''GMAKER'' = Inl Invalid_secret_provided"
  using sample_secret_valid abc_rejected
    single_stage_gating [of "mock_world 100000" sample_config "hex0x (replicate 32 7)" "''GMAKER''"]
    single_stage_gating [of "mock_world 100001" sample_config "hex0x (replicate 32 7)" "''GMAKER''"]
    single_stage_gating [of "mock_world 0" sample_config "''0x616263''" "''GMAKER''"]
  by (simp add: mock_world_def sample_config_def)

text \<open>
  Claim C3, as stated, fails at the deadline itself: with the clock exactly at \<open>D\<close> the
  refund is refused as too early and the claim goes through.
\<close>

theorem single_stage_gating_counterexample:
  "createRefundTransaction (mock_world 100000) sample_config ''GMAKER'' =
     Inl Timelock_has_not_expired_yet \<and>
   createClaimingTransaction (mock_world 100000) sample_config (hex0x (replicate 32 7)) ''GMAKER'' =
     Inr \<lparr>tx_id = ''id'', tx_type = Claim, tx_from = ''GMAKER'', tx_to = ''GMAKER'',
          tx_amount = ''10'',
          tx_memo = ''HTLC_CLAIM_'' @ generateContractId sample_config @ ''_'' @ toHex (replicate 32 7),
          tx_xdr = ''xdr'', tx_hash = ''hash''\<rparr>"
  using sample_secret_valid
  by (simp add: claim_result refund_result replace_0x_hex0x mock_world_def)
     (simp add: sample_config_def replace_0x_hex0x)

subsection \<open>C4\<close>

text \<open>
  Claim C4 on the class that builds its envelopes with the Stellar SDK. The memo of the
  claim is \<open>HTLC_CLAIM_\<close>, the 16 characters of the contract id, \<open>_\<close> and the digits of
  the secret: 28 characters and the digits. \<open>Memo.text\<close> takes 28 bytes at most. So for
  every secret that validates and has a digit, before the deadline,
  \<open>createClaimingTransaction\<close> fails with \<open>Failed to create claiming transaction\<close>,
  whatever the account and the signing do: there is no claim transaction to extract the
  secret from.
\<close>

theorem claim_memo_over_limit:
  assumes "validateSecret cfg s" "\<not> isTimelockExpired w cfg" "replace_0x s \<noteq> []"
    and "backend w = sdk_backend sign"
  shows "length (''HTLC_CLAIM_'' @ generateContractId cfg @ ''_'' @ replace_0x s) =
           28 + length (replace_0x s) \<and>
         createClaimingTransaction w cfg s kp = Inl (Failed_to_create Claim)"
proof -
  have n: "length (''HTLC_CLAIM_'' @ generateContractId cfg @ ''_'' @ replace_0x s) =
             28 + length (replace_0x s)"
    by (simp add: length_generateContractId)
  have "0 < length (replace_0x s)"
    using assms(3) by simp
  with n have "28 < length (''HTLC_CLAIM_'' @ generateContractId cfg @ ''_'' @ replace_0x s)"
    by linarith
  then have "backend w kp Claim (''HTLC_CLAIM_'' @ generateContractId cfg @ ''_'' @ replace_0x s) = None"
    by (simp only: assms(4) sdk_backend_def if_True)
  then have "createClaimingTransaction w cfg s kp = Inl (Failed_to_create Claim)"
    using assms(1,2) by (simp add: createClaimingTransaction_def Let_def)
  with n show ?thesis by (rule conjI)
qed

text \<open>
  Claim C4 at the sample escrow and its own secret, \<open>0x\<close> and 64 digits, at clock 0, on
  the SDK with an account that loads and a signing that succeeds: the memo has 92
  characters and the claim transaction is not created.
\<close>

theorem claim_memo_over_limit_witness:
  "validateSecret sample_config (hex0x (replicate 32 7)) \<and>
   \<not> isTimelockExpired (sdk_world 0) sample_config \<and>
   length (''HTLC_CLAIM_'' @ generateContractId sample_config @ ''_'' @
           replace_0x (hex0x (replicate 32 7))) = 92 \<and>
   createClaimingTransaction (sdk_world 0) sample_config (hex0x (replicate 32 7)) ''GMAKER'' =
     Inl (Failed_to_create Claim)"
proof -
  have x: "\<not> isTimelockExpired (sdk_world 0) sample_config"
    by (simp add: expired_iff sdk_world_def sample_config_def)
  have d: "replace_0x (hex0x (replicate 32 7)) \<noteq> []"
    by (simp add: replace_0x_hex0x conjunct1 [OF sample_hex])
  have b: "backend (sdk_world 0) = sdk_backend (\<lambda>k ty m. Some (''xdr'', ''hash''))"
    by (simp add: sdk_world_def)
  have l: "length (replace_0x (hex0x (replicate 32 (7 :: byte)))) = 64"
    by (simp add: replace_0x_hex0x length_toHex)
  from claim_memo_over_limit [OF sample_secret_valid x d b, of "''GMAKER''"] sample_secret_valid x l
  show ?thesis by simp
qed

subsection \<open>C5\<close>




subsection \<open>C6\<close>

text \<open>
  Claim C6, as the code has it. Setting up the two legs checks no margin between their
  schedules: \<open>generateHashlock\<close> cannot fail, and \<open>lockETHIntoHTLC\<close> always sends the
  escrow to the factory and fails only when that call does. The schedules are fixed by the
  clock: the refund deadline of the Stellar escrow, where the secret is revealed, is 86400
  seconds after the clock reading of \<open>generateHashlock\<close>, and the cancellation of the Base
  escrow, claimed with the revealed secret, 86400 seconds after that of
  \<open>lockETHIntoHTLC\<close>. With a clock that does not run backwards the first is at or before
  the second.
\<close>

theorem no_margin_check:
  "date_now wa \<le> date_now wb \<Longrightarrow>
   (case lockETHIntoHTLC wb createDstEscrow oh tk (generateHashlock wa bs st) of
      (r, calls) \<Rightarrow>
        (\<exists>imm v cfg.
           calls = [CreateDstEscrow imm v] \<and>
           (isl r \<longleftrightarrow> createDstEscrow imm v = None) \<and>
           st_stellarHTLC (generateHashlock wa bs st) = Some cfg \<and>
           timelock cfg = date_now wa div 1000 + 86400 \<and>
           deployedAt (im_timelocks imm) + field32 64 (im_timelocks imm) =
             date_now wb div 1000 + 86400 \<and>
           timelock cfg \<le> deployedAt (im_timelocks imm) + field32 64 (im_timelocks imm)))"
proof -
  assume le: "date_now wa \<le> date_now wb"
  then have d: "date_now wa div 1000 \<le> date_now wb div 1000"
    by (simp add: zdiv_mono1)
  let ?now = "date_now wb div 1000"
  let ?imm = "\<lparr>orderHash = oh, im_hashlock = st_hashlock (generateHashlock wa bs st),
       maker = st_baseSigner (generateHashlock wa bs st), taker = tk, token = 0,
       im_amount = 10 ^ 15, safetyDeposit = 10 ^ 14,
       im_timelocks = packTimelocks ?now \<lparr>withdrawal = ?now + 3600,
         publicWithdrawal = ?now + 21600, cancellation = ?now + 86400\<rparr>\<rparr>"
  obtain cfg where cfg: "st_stellarHTLC (generateHashlock wa bs st) = Some cfg"
    "timelock cfg = date_now wa div 1000 + 86400"
    by (simp add: generateHashlock_def Let_def)
  have t: "deployedAt (im_timelocks ?imm) + field32 64 (im_timelocks ?imm) = ?now + 86400"
    using script_timelocks_decode [of ?now] by simp
  show ?thesis
  proof (cases "createDstEscrow ?imm (10 ^ 15 + 10 ^ 14)")
    case None
    then have "lockETHIntoHTLC wb createDstEscrow oh tk (generateHashlock wa bs st) =
        (Inl Escrow_creation_failed, [CreateDstEscrow ?imm (10 ^ 15 + 10 ^ 14)])"
      by (simp add: lockETHIntoHTLC_def Let_def)
    with None cfg t d show ?thesis
      by simp
  next
    case (Some r)
    then obtain st' where "lockETHIntoHTLC wb createDstEscrow oh tk (generateHashlock wa bs st) =
        (Inr st', [CreateDstEscrow ?imm (10 ^ 15 + 10 ^ 14)])"
      by (simp add: lockETHIntoHTLC_def Let_def)
    with Some cfg t d show ?thesis
      by simp
  qed
qed

text \<open>
  Claim C6 with the Base escrow funded one second after the hashlock was generated.
\<close>

theorem no_margin_check_witness:
  "date_now (mock_world 0) \<le> date_now (mock_world 1000) \<and>
   (case lockETHIntoHTLC (mock_world 1000) sample_factory ''0xorder'' 5
           (generateHashlock (mock_world 0) (replicate 32 7) sample_state) of
      (r, calls) \<Rightarrow>
        (\<exists>imm v cfg.
           calls = [CreateDstEscrow imm v] \<and>
           (isl r \<longleftrightarrow> sample_factory imm v = None) \<and>
           st_stellarHTLC (generateHashlock (mock_world 0) (replicate 32 7) sample_state) = Some cfg \<and>
           timelock cfg = 86400 \<and>
           deployedAt (im_timelocks imm) + field32 64 (im_timelocks imm) = 86401 \<and>
           timelock cfg \<le> deployedAt (im_timelocks imm) + field32 64 (im_timelocks imm)))"
proof -
  have h: "date_now (mock_world 0) \<le> date_now (mock_world 1000)"
    by (simp add: mock_world_def)
  have 0: "date_now (mock_world 0) div 1000 + 86400 = 86400"
    by (simp add: mock_world_def)
  have 1: "date_now (mock_world 1000) div 1000 + 86400 = 86401"
    by (simp add: mock_world_def)
  from no_margin_check [OF h, where createDstEscrow = sample_factory and oh = "''0xorder''"
      and tk = 5 and bs = "replicate 32 7" and st = sample_state] h
  show ?thesis
    unfolding 0 1 by simp
qed

text \<open>
  Claim C6, as stated, fails: with the Base escrow funded one second after the hashlock
  was generated, the Stellar deadline (86400) is before the cancellation of the Base escrow
  (86401), and both steps go through.
\<close>

theorem no_margin_check_counterexample:
  "(case lockETHIntoHTLC (mock_world 1000) sample_factory ''0xorder'' 5
           (generateHashlock (mock_world 0) (replicate 32 7) sample_state) of
      (Inl e, calls) \<Rightarrow> False
    | (Inr st, calls) \<Rightarrow>
        (case (st_stellarHTLC st, st_baseEscrow st) of
           (Some cfg, Some be) \<Rightarrow>
             timelock cfg = 86400 \<and>
             deployedAt (im_timelocks (be_immutables be)) +
               field32 64 (im_timelocks (be_immutables be)) = 86401
         | _ \<Rightarrow> False))"
proof -
  have "date_now (mock_world 1000) div 1000 = 1" "date_now (mock_world 0) div 1000 = 0"
    by (simp_all add: mock_world_def)
  then show ?thesis
    using script_timelocks_decode [of 1]
    by (simp add: lockETHIntoHTLC_def generateHashlock_def Let_def sample_factory_def)
qed

subsection \<open>C7\<close>



subsection \<open>C8\<close>

text \<open>
  Claim C8, as the code has it. \<open>isTimelockExpired\<close> takes no clock from its caller: its
  result is a function of the configured deadline and of the reading of \<open>Date.now()\<close> at
  the call, true exactly when that reading is after the deadline, and of nothing else
  in the world.
\<close>

theorem expiry_reads_wall_clock:
  "isTimelockExpired \<lparr>date_now = t, backend = b, fetch_tx = f\<rparr> cfg \<longleftrightarrow> timelock cfg * 1000 < t"
  by (simp add: expired_iff)

text \<open>
  Claim C8, as stated, fails: two evaluations on the same escrow, with nothing supplied by
  the caller, differ when the wall clock differs.
\<close>

theorem expiry_reads_wall_clock_counterexample:
  "isTimelockExpired (mock_world 0) sample_config \<noteq> isTimelockExpired (mock_world 200000) sample_config"
  by (simp add: expired_iff mock_world_def sample_config_def)

subsection \<open>C9\<close>

text \<open>
  Claim C9, as the code has it. \<open>validateSecret\<close> checks no length and has no failure:
  for a secret that is not 32 bytes long it returns a boolean like for any other, true
  exactly when the SHA-256 digest of the bytes is the digest the hashlock spells.
\<close>

theorem validateSecret_other_lengths:
  "length bs \<noteq> 32 \<Longrightarrow> hashlock cfg = hex0x d \<Longrightarrow>
   validateSecret cfg (hex0x bs) = (sha256 bs = d)"
  by (simp add: validateSecret_hex0x)

text \<open>
  Claim C9 at a secret of one byte, with the hashlock of that byte.
\<close>

theorem validateSecret_other_lengths_witness:
  "length [0xab :: byte] \<noteq> 32 \<and>
   hashlock (sample_config\<lparr>hashlock := hex0x (sha256 [0xab])\<rparr>) = hex0x (sha256 [0xab]) \<and>
   validateSecret (sample_config\<lparr>hashlock := hex0x (sha256 [0xab])\<rparr>) (hex0x [0xab])"
  using validateSecret_other_lengths [of "[0xab]" "sample_config\<lparr>hashlock := hex0x (sha256 [0xab])\<rparr>" "sha256 [0xab]"]
  by simp

text \<open>
  Claim C9, as stated, fails: the secret \<open>0xab\<close>, one byte long, is not refused as
  malformed; against the hashlock of that byte it is accepted.
\<close>

theorem validateSecret_other_lengths_counterexample:
  "validateSecret (sample_config\<lparr>hashlock := hex0x (sha256 [0xab])\<rparr>) ''0xab''"
proof -
  have "fromHex ''ab'' = [0xab]"
    by (simp add: hexval_def)
  then show ?thesis
    by (simp add: validateSecret_def replace_0x_hex0x)
qed

subsection \<open>C10\<close>

text \<open>
  Claim C10. What \<open>extractSecretFromTransaction\<close> returns validates against the hashlock,
  comes from a transaction of type \<open>claim\<close>, and is \<open>0x\<close> followed by hexadecimal digits
  found in the memo. A transaction of another type gives \<open>null\<close>; so does a memo no part
  of which validates.
\<close>

theorem extraction_sound:
  "(extractSecretFromTransaction cfg tx = Some s \<longrightarrow>
      validateSecret cfg s \<and> tx_type tx = Claim \<and>
      (\<exists>g. s = ''0x'' @ g \<and> g \<noteq> [] \<and> list_all isHexChar g \<and> sublist g (tx_memo tx))) \<and>
   (tx_type tx \<noteq> Claim \<longrightarrow> extractSecretFromTransaction cfg tx = None) \<and>
   ((\<forall>g. sublist g (tx_memo tx) \<longrightarrow> \<not> validateSecret cfg (''0x'' @ g)) \<longrightarrow>
      extractSecretFromTransaction cfg tx = None)"
proof -
  have 1: "validateSecret cfg s \<and> tx_type tx = Claim \<and>
      (\<exists>g. s = ''0x'' @ g \<and> g \<noteq> [] \<and> list_all isHexChar g \<and> sublist g (tx_memo tx))"
    if a: "extractSecretFromTransaction cfg tx = Some s"
  proof -
    from a obtain g where g: "memoMatch (tx_memo tx) = Some g" "s = ''0x'' @ g"
      "validateSecret cfg (''0x'' @ g)" "tx_type tx = Claim"
      by (auto simp: extractSecretFromTransaction_def split: if_splits option.splits)
    from g(1) have "sublist g (tx_memo tx) \<and> g \<noteq> [] \<and> list_all isHexChar g"
      by (rule memoMatch_sublist)
    with g show ?thesis by blast
  qed
  have 2: "extractSecretFromTransaction cfg tx = None" if "tx_type tx \<noteq> Claim"
    using that by (simp add: extractSecretFromTransaction_def)
  have 3: "extractSecretFromTransaction cfg tx = None"
    if n: "\<forall>g. sublist g (tx_memo tx) \<longrightarrow> \<not> validateSecret cfg (''0x'' @ g)"
  proof (cases "memoMatch (tx_memo tx)")
    case None
    then show ?thesis by (simp add: extractSecretFromTransaction_def)
  next
    case (Some g)
    then have "sublist g (tx_memo tx)"
      using memoMatch_sublist by blast
    with n have "\<not> validateSecret cfg (''0x'' @ g)" by blast
    with Some show ?thesis by (simp add: extractSecretFromTransaction_def)
  qed
  from 1 2 3 show ?thesis by blast
qed

text \<open>
  Claim C10 at three transactions: the claim of the sample escrow, its funding, and a
  claim memo against an escrow whose hashlock no digest can spell.
\<close>

theorem extraction_sound_witness:
  "extractSecretFromTransaction sample_config
     \<lparr>tx_id = ''id'', tx_type = Claim, tx_from = ''GMAKER'', tx_to = ''GMAKER'', tx_amount = ''10'',
      tx_memo = ''HTLC_CLAIM_'' @ generateContractId sample_config @ ''_'' @ toHex (replicate 32 7),
      tx_xdr = ''xdr'', tx_hash = ''hash''\<rparr> = Some (hex0x (replicate 32 7)) \<and>
   validateSecret sample_config (hex0x (replicate 32 7)) \<and>
   extractSecretFromTransaction sample_config
     \<lparr>tx_id = ''id'', tx_type = Fund, tx_from = ''GTAKER'', tx_to = ''GMAKER'', tx_amount = ''10'',
      tx_memo = ''HTLC_FUND_'' @ generateContractId sample_config,
      tx_xdr = ''xdr'', tx_hash = ''hash''\<rparr> = None \<and>
   extractSecretFromTransaction (sample_config\<lparr>hashlock := ''0x00''\<rparr>)
     \<lparr>tx_id = ''id'', tx_type = Claim, tx_from = ''GMAKER'', tx_to = ''GMAKER'', tx_amount = ''10'',
      tx_memo = ''HTLC_CLAIM_abc_00'', tx_xdr = ''xdr'', tx_hash = ''hash''\<rparr> = None"
proof -
  let ?claim = "\<lparr>tx_id = ''id'', tx_type = Claim, tx_from = ''GMAKER'', tx_to = ''GMAKER'', tx_amount = ''10'',
      tx_memo = ''HTLC_CLAIM_'' @ generateContractId sample_config @ ''_'' @ toHex (replicate 32 7),
      tx_xdr = ''xdr'', tx_hash = ''hash''\<rparr>"
  let ?fund = "\<lparr>tx_id = ''id'', tx_type = Fund, tx_from = ''GTAKER'', tx_to = ''GMAKER'', tx_amount = ''10'',
      tx_memo = ''HTLC_FUND_'' @ generateContractId sample_config,
      tx_xdr = ''xdr'', tx_hash = ''hash''\<rparr>"
  let ?other = "\<lparr>tx_id = ''id'', tx_type = Claim, tx_from = ''GMAKER'', tx_to = ''GMAKER'', tx_amount = ''10'',
      tx_memo = ''HTLC_CLAIM_abc_00'', tx_xdr = ''xdr'', tx_hash = ''hash''\<rparr>"
  have v: "validateSecret sample_config (''0x'' @ toHex (replicate 32 7))"
    using sample_secret_valid by (simp add: hex0x_def)
  have e: "extractSecretFromTransaction sample_config ?claim = Some (hex0x (replicate 32 7))"
    unfolding hex0x_def using sample_hex v by (intro extract_claim_memo) simp_all
  have n: "\<forall>g. sublist g (tx_memo ?other) \<longrightarrow>
             \<not> validateSecret (sample_config\<lparr>hashlock := ''0x00''\<rparr>) (''0x'' @ g)"
    by (simp add: validateSecret_needs_64)
  from extraction_sound [of sample_config ?claim "hex0x (replicate 32 7)"] e
    extraction_sound [of sample_config ?fund]
    extraction_sound [of "sample_config\<lparr>hashlock := ''0x00''\<rparr>" ?other] n
  show ?thesis by simp
qed

end
